theory Spec2Isabelle
  imports Complex_Main "HOL-Library.Word" "HOL-Library.AList"
begin

unbundle bit_operations_syntax

section \<open>Texts and numbers of the language\<close>

text \<open>
  A text is a list of code units below 256. \<open>isSpace\<close> is the part of the white space of
  the language (what \<open>trim\<close>, \<open>\s\<close>, \<open>Number\<close> and \<open>parseInt\<close> skip) in that range.
\<close>

definition isSpace :: "char \<Rightarrow> bool" where
  "isSpace ch = ((of_char ch :: nat) \<in> {9, 10, 11, 12, 13, 32, 160})"

definition trim :: "string \<Rightarrow> string" where
  "trim s = rev (dropWhile isSpace (rev (dropWhile isSpace s)))"

text \<open>The characters a decimal text is made of.\<close>

definition decimalChar :: "char \<Rightarrow> bool" where
  "decimalChar ch = (ch \<in> set ''0123456789'')"

text \<open>
  \<open>parseInt(s)\<close> without a radix: leading white space is skipped, a sign is read, a
  \<open>0x\<close> prefix selects base 16, and the longest run of digits is converted; \<open>None\<close> is
  NaN. Numbers are integers here (exact in the source up to \<open>2^53\<close>).
\<close>

definition digitVal :: "nat \<Rightarrow> char \<Rightarrow> nat option" where
  "digitVal radix ch =
     (let n = (of_char ch :: nat);
          v = (if 48 \<le> n \<and> n \<le> 57 then Some (n - 48)
               else if 97 \<le> n \<and> n \<le> 122 then Some (n - 87)
               else if 65 \<le> n \<and> n \<le> 90 then Some (n - 55)
               else None)
      in case v of None \<Rightarrow> None | Some d \<Rightarrow> if d < radix then Some d else None)"

fun digitRun :: "nat \<Rightarrow> string \<Rightarrow> nat list" where
  "digitRun radix [] = []"
| "digitRun radix (ch # s) =
     (case digitVal radix ch of None \<Rightarrow> [] | Some d \<Rightarrow> d # digitRun radix s)"

definition parseInt :: "string \<Rightarrow> int option" where
  "parseInt s =
     (let s1 = dropWhile isSpace s;
          (sign, s2) = (case s1 of
                          ch # rest \<Rightarrow> if ch = CHR ''-'' then (- 1 :: int, rest)
                                       else if ch = CHR ''+'' then (1, rest)
                                       else (1, s1)
                        | [] \<Rightarrow> (1, s1));
          (radix, s3) = (case s2 of
                           z # x # rest \<Rightarrow> if z = CHR ''0'' \<and> (x = CHR ''x'' \<or> x = CHR ''X'')
                                           then (16 :: nat, rest) else (10, s2)
                         | _ \<Rightarrow> (10, s2));
          ds = digitRun radix s3
      in if ds = [] then None
         else Some (sign * int (foldl (\<lambda>acc dgt. acc * radix + dgt) 0 ds)))"

text \<open>\<open>Number.prototype.toString(radix)\<close> on a non-negative integer, for the two bases used.\<close>

definition digitChar :: "nat \<Rightarrow> char" where
  "digitChar dgt = ''0123456789abcdefghijklmnopqrstuvwxyz'' ! dgt"

fun toString10 :: "nat \<Rightarrow> string" where
  "toString10 n = (if n < 10 then [digitChar n] else toString10 (n div 10) @ [digitChar (n mod 10)])"

fun toString36 :: "nat \<Rightarrow> string" where
  "toString36 n = (if n < 36 then [digitChar n] else toString36 (n div 36) @ [digitChar (n mod 36)])"

text \<open>Both equations are unfolded on demand only: as rewrite rules they apply to their own
  right-hand sides.\<close>

declare toString10.simps [simp del] toString36.simps [simp del]

text \<open>The decimal text of an integer that may be NaN, as \<open>toString()\<close> and a template give it.\<close>

definition numberToString :: "int option \<Rightarrow> string" where
  "numberToString x =
     (case x of
        None \<Rightarrow> ''NaN''
      | Some n \<Rightarrow> if n < 0 then CHR ''-'' # toString10 (nat (- n)) else toString10 (nat n))"

subsection \<open>Numbers\<close>

text \<open>
  A number of the language: a finite double, taken as the rational it denotes, NaN, or
  an infinity. Arithmetic on the finite ones is exact here.
\<close>

datatype js_number = Finite rat | NaN | PosInf | NegInf

text \<open>\<open>x < y\<close> on numbers (the same as \<open>x - y < 0\<close>): false as soon as one side is NaN.\<close>

fun num_less :: "js_number \<Rightarrow> js_number \<Rightarrow> bool" where
  "num_less (Finite p) (Finite q) = (p < q)"
| "num_less (Finite p) PosInf = True"
| "num_less NegInf (Finite q) = True"
| "num_less NegInf PosInf = True"
| "num_less _ _ = False"

fun num_add :: "js_number \<Rightarrow> js_number \<Rightarrow> js_number" where
  "num_add (Finite p) (Finite q) = Finite (p + q)"
| "num_add NaN _ = NaN"
| "num_add _ NaN = NaN"
| "num_add PosInf NegInf = NaN"
| "num_add NegInf PosInf = NaN"
| "num_add PosInf _ = PosInf"
| "num_add _ PosInf = PosInf"
| "num_add NegInf _ = NegInf"
| "num_add _ NegInf = NegInf"

text \<open>\<open>x / n\<close> for an integer \<open>n\<close>.\<close>

fun num_div_int :: "js_number \<Rightarrow> int \<Rightarrow> js_number" where
  "num_div_int (Finite p) n =
     (if n = 0 then (if p = 0 then NaN else if p > 0 then PosInf else NegInf)
      else Finite (p / of_int n))"
| "num_div_int NaN n = NaN"
| "num_div_int PosInf n = (if n < 0 then NegInf else PosInf)"
| "num_div_int NegInf n = (if n < 0 then PosInf else NegInf)"

text \<open>\<open>Math.min\<close> of two numbers.\<close>

fun num_min :: "js_number \<Rightarrow> js_number \<Rightarrow> js_number" where
  "num_min NaN _ = NaN"
| "num_min _ NaN = NaN"
| "num_min x y = (if num_less y x then y else x)"

subsection \<open>Reading a number from a text\<close>

definition decimalValue :: "string \<Rightarrow> int" where
  "decimalValue ds = foldl (\<lambda>acc ch. acc * 10 + (int (of_char ch) - 48)) 0 ds"

text \<open>The exponent part of a decimal literal: empty, or \<open>e\<close>, a sign and digits.\<close>

definition exponentPart :: "string \<Rightarrow> int option" where
  "exponentPart s =
     (case s of
        [] \<Rightarrow> Some 0
      | ch # r \<Rightarrow>
          if ch = CHR ''e'' \<or> ch = CHR ''E'' then
            (let (negative, ds) = (case r of
                                     c # r' \<Rightarrow> if c = CHR ''-'' then (True, r')
                                               else if c = CHR ''+'' then (False, r')
                                               else (False, r)
                                   | [] \<Rightarrow> (False, r))
             in if ds \<noteq> [] \<and> list_all decimalChar ds
                then Some (if negative then - decimalValue ds else decimalValue ds)
                else None)
          else None)"

text \<open>
  An unsigned decimal literal: digits, an optional point with digits, an optional
  exponent; at least one digit before or after the point.
\<close>

definition strDecimal :: "string \<Rightarrow> rat option" where
  "strDecimal s =
     (let ip = takeWhile decimalChar s;
          r1 = dropWhile decimalChar s;
          (fp, r2) = (case r1 of
                        ch # r \<Rightarrow> if ch = CHR ''.''
                                  then (takeWhile decimalChar r, dropWhile decimalChar r)
                                  else ([], r1)
                      | [] \<Rightarrow> ([], []))
      in if ip = [] \<and> fp = [] then None
         else (case exponentPart r2 of
                 None \<Rightarrow> None
               | Some e \<Rightarrow>
                   Some ((of_int (decimalValue ip) + of_int (decimalValue fp) / 10 ^ length fp)
                         * (if e \<ge> 0 then 10 ^ nat e else 1 / 10 ^ nat (- e)))))"

text \<open>A literal with a base prefix: every character after the prefix is a digit of the base.\<close>

definition prefixedInteger :: "nat \<Rightarrow> string \<Rightarrow> js_number" where
  "prefixedInteger radix ds =
     (if ds \<noteq> [] \<and> length (digitRun radix ds) = length ds
      then Finite (of_nat (foldl (\<lambda>acc dgt. acc * radix + dgt) 0 (digitRun radix ds)))
      else NaN)"

definition basePrefix :: "string \<Rightarrow> (nat \<times> string) option" where
  "basePrefix t =
     (case t of
        z # x # ds \<Rightarrow>
          if z = CHR ''0'' then
            (if x = CHR ''x'' \<or> x = CHR ''X'' then Some (16, ds)
             else if x = CHR ''o'' \<or> x = CHR ''O'' then Some (8, ds)
             else if x = CHR ''b'' \<or> x = CHR ''B'' then Some (2, ds)
             else None)
          else None
      | _ \<Rightarrow> None)"

text \<open>
  \<open>Number(s)\<close> on a text, which is also the coercion the operators apply to it: white
  space is trimmed on both sides; the empty text is 0; then a literal with base prefix
  \<open>0x\<close>, \<open>0o\<close> or \<open>0b\<close>, or a signed \<open>Infinity\<close>, or a signed decimal literal; any
  other text is NaN.
\<close>

definition stringToNumber :: "string \<Rightarrow> js_number" where
  "stringToNumber s =
     (let t = trim s in
      if t = [] then Finite 0
      else
        (case basePrefix t of
           Some (radix, ds) \<Rightarrow> prefixedInteger radix ds
         | None \<Rightarrow>
             (let (negative, body) = (case t of
                                        c # r \<Rightarrow> if c = CHR ''-'' then (True, r)
                                                 else if c = CHR ''+'' then (False, r)
                                                 else (False, t)
                                      | [] \<Rightarrow> (False, t))
              in if body = ''Infinity'' then (if negative then NegInf else PosInf)
                 else (case strDecimal body of
                         None \<Rightarrow> NaN
                       | Some q \<Rightarrow> Finite (if negative then - q else q)))))"

subsection \<open>Printing a number\<close>

text \<open>
  \<open>String(x)\<close> on a number. An integer prints as its decimal text. Another finite number
  prints with its integer part, a point and the digits of its fraction, up to 20 of them
  (the source prints the shortest text that reads back as the same double, and turns to
  exponent notation from \<open>10^21\<close> on and below \<open>10^-6\<close>).
\<close>

primrec fractionDigits :: "nat \<Rightarrow> rat \<Rightarrow> string" where
  "fractionDigits 0 r = []"
| "fractionDigits (Suc fuel) r =
     (if r = 0 then []
      else digitChar (nat \<lfloor>r * 10\<rfloor>) # fractionDigits fuel (r * 10 - of_int \<lfloor>r * 10\<rfloor>))"

definition numberText :: "js_number \<Rightarrow> string" where
  "numberText x =
     (case x of
        NaN \<Rightarrow> ''NaN''
      | PosInf \<Rightarrow> ''Infinity''
      | NegInf \<Rightarrow> ''-Infinity''
      | Finite q \<Rightarrow>
          if q = of_int \<lfloor>q\<rfloor> then numberToString (Some \<lfloor>q\<rfloor>)
          else (if q < 0 then ''-'' else [])
               @ toString10 (nat \<lfloor>\<bar>q\<bar>\<rfloor>) @ ''.''
               @ fractionDigits 20 (\<bar>q\<bar> - of_int \<lfloor>\<bar>q\<bar>\<rfloor>))"

subsection \<open>Values\<close>

text \<open>
  A value as a request body or a stored document can hold it. An array or an object is
  given by its string form (\<open>String(v)\<close>: the joined elements of an array,
  \<open>[object Object]\<close> for an object), which is all the operators used here look at.
\<close>

datatype js_value =
    JNum js_number
  | JStr string
  | JNull
  | JBool bool
  | JUndefined     \<comment> \<open>also an absent field\<close>
  | JObj string

text \<open>\<open>Number(v)\<close>, and the coercion of \<open><\<close>, \<open>></\<close>, \<open>-\<close>, \<open>/\<close> and \<open>Math.min\<close>.\<close>

fun toNumber :: "js_value \<Rightarrow> js_number" where
  "toNumber (JNum x) = x"
| "toNumber (JStr s) = stringToNumber s"
| "toNumber JNull = Finite 0"
| "toNumber (JBool b) = Finite (if b then 1 else 0)"
| "toNumber JUndefined = NaN"
| "toNumber (JObj s) = stringToNumber s"

text \<open>\<open>String(v)\<close>.\<close>

fun toText :: "js_value \<Rightarrow> string" where
  "toText (JNum x) = numberText x"
| "toText (JStr s) = s"
| "toText JNull = ''null''"
| "toText (JBool b) = (if b then ''true'' else ''false'')"
| "toText JUndefined = ''undefined''"
| "toText (JObj s) = s"

text \<open>\<open>Number.isInteger\<close>: false for every value whose type is not number, without coercion.\<close>

fun isInteger :: "js_value \<Rightarrow> bool" where
  "isInteger (JNum (Finite q)) = (q = of_int \<lfloor>q\<rfloor>)"
| "isInteger _ = False"

text \<open>The truthiness of a value.\<close>

fun truthy :: "js_value \<Rightarrow> bool" where
  "truthy (JNum (Finite q)) = (q \<noteq> 0)"
| "truthy (JNum NaN) = False"
| "truthy (JNum _) = True"
| "truthy (JStr s) = (s \<noteq> [])"
| "truthy JNull = False"
| "truthy (JBool b) = b"
| "truthy JUndefined = False"
| "truthy (JObj s) = True"

text \<open>
  \<open>a + b\<close>: an array or object becomes its string form; if either side is then a text,
  the texts are concatenated, otherwise the numbers are added.
\<close>

fun isText :: "js_value \<Rightarrow> bool" where
  "isText (JStr s) = True"
| "isText (JObj s) = True"
| "isText _ = False"

definition js_plus :: "js_value \<Rightarrow> js_value \<Rightarrow> js_value" where
  "js_plus a b =
     (if isText a \<or> isText b then JStr (toText a @ toText b)
      else JNum (num_add (toNumber a) (toNumber b)))"

text \<open>\<open>parseInt(v)\<close> prints its argument first.\<close>

definition parseIntValue :: "js_value \<Rightarrow> js_number" where
  "parseIntValue v = (case parseInt (toText v) of None \<Rightarrow> NaN | Some n \<Rightarrow> Finite (of_int n))"

text \<open>
  What \<open>JSON.parse(JSON.stringify(v))\<close> gives back for a value inside a document: NaN
  and the infinities are written as \<open>null\<close>.
\<close>

fun jsonValue :: "js_value \<Rightarrow> js_value" where
  "jsonValue (JNum (Finite q)) = JNum (Finite q)"
| "jsonValue (JNum _) = JNull"
| "jsonValue v = v"

text \<open>Comparisons of a value with a numeric constant; a NaN operand makes them false.\<close>

definition js_lt :: "js_value \<Rightarrow> rat \<Rightarrow> bool" where
  "js_lt t b = num_less (toNumber t) (Finite b)"

definition js_gt :: "js_value \<Rightarrow> rat \<Rightarrow> bool" where
  "js_gt t b = num_less (Finite b) (toNumber t)"

section \<open>Basic data\<close>

text \<open>
  The three difficulty tiers. The source carries them as the strings
  \<open>'beginner'\<close>, \<open>'intermediate'\<close> and \<open>'expert'\<close>; \<open>difficulty_name\<close> gives the string
  used to build store and cache keys.
\<close>

datatype difficulty = Beginner | Intermediate | Expert

fun difficulty_name :: "difficulty \<Rightarrow> string" where
  "difficulty_name Beginner = ''beginner''"
| "difficulty_name Intermediate = ''intermediate''"
| "difficulty_name Expert = ''expert''"

text \<open>
  \<open>DataValidator.validateDifficulty\<close> and the check at the head of
  \<open>handleLeaderboardAPI\<close>: membership in the list of the three names.
\<close>

definition validateDifficulty :: "string \<Rightarrow> difficulty option" where
  "validateDifficulty s =
     (if s = ''beginner'' then Some Beginner
      else if s = ''intermediate'' then Some Intermediate
      else if s = ''expert'' then Some Expert
      else None)"

datatype severity = SevNone | Low | Medium | High | Critical

section \<open>DataValidator.validateTime\<close>

datatype time_error = TimeNotNumber | TimeNotFinite | TimeNotPositiveInteger | TimeTooLarge

text \<open>
  The \<open>time\<close> field of a request body is any value. Only a number or a text passes the
  \<open>typeof\<close> test; what is validated is \<open>Number(time)\<close>.
\<close>

definition validateTime :: "js_value \<Rightarrow> time_error + rat" where
  "validateTime time =
     (let checked =
            (case toNumber time of
               Finite numTime \<Rightarrow>
                 if numTime \<noteq> of_int \<lfloor>numTime\<rfloor> \<or> numTime < 1 then Inl TimeNotPositiveInteger
                 else if numTime > 9999 then Inl TimeTooLarge
                 else Inr numTime
             | _ \<Rightarrow> Inl TimeNotFinite)
      in case time of
           JNum _ \<Rightarrow> checked
         | JStr _ \<Rightarrow> checked
         | _ \<Rightarrow> Inl TimeNotNumber)"

section \<open>validateGameSession\<close>

text \<open>
  The \<open>gameData\<close> object of a request, with its ten fields present and of their JSON types.
  \<open>gd_timestamp\<close> is the claimed start instant as \<open>new Date(timestamp).getTime()\<close> reads it.
\<close>

datatype js_date =
    NoDate         \<comment> \<open>a falsy value (empty string, 0, null)\<close>
  | InvalidDate    \<comment> \<open>a truthy value that \<open>Date\<close> cannot parse: \<open>getTime()\<close> is NaN\<close>
  | DateMs int     \<comment> \<open>a parsable instant, in milliseconds\<close>

record game_data =
  gd_difficulty :: string
  gd_time :: rat
  gd_moves :: rat
  gd_gameId :: string
  gd_timestamp :: js_date
  gd_boardSize :: "(rat \<times> rat) option"   \<comment> \<open>width and height; \<open>None\<close> is a falsy value\<close>
  gd_mineCount :: rat
  gd_gameEndTime :: rat
  gd_firstClickTime :: rat
  gd_gameState :: string

datatype session_reason =
    MissingSessionInfo | InvalidGameState | SessionExpired | DurationMismatch
  | BoardMismatch | TooFewMoves | TooManyMoves | InhumanSpeed | TooSlow

text \<open>The table \<open>expectedBoardSizes\<close>: width, height, mines; \<open>None\<close> for a name it lacks.\<close>

definition expectedBoardSizes :: "string \<Rightarrow> (rat \<times> rat \<times> rat) option" where
  "expectedBoardSizes d =
     (if d = ''beginner'' then Some (9, 9, 10)
      else if d = ''intermediate'' then Some (16, 16, 40)
      else if d = ''expert'' then Some (30, 16, 99)
      else None)"

definition minMoves :: "string \<Rightarrow> rat option" where
  "minMoves d =
     (if d = ''beginner'' then Some 8
      else if d = ''intermediate'' then Some 15
      else if d = ''expert'' then Some 25
      else None)"

text \<open>\<open>now\<close> is \<open>Date.now()\<close>. The result is \<open>Inl (reason, severity)\<close> for \<open>valid: false\<close>.\<close>

definition validateGameSession :: "int \<Rightarrow> game_data \<Rightarrow> (session_reason \<times> severity) + unit" where
  "validateGameSession now g =
     (if gd_gameId g = [] \<or> gd_timestamp g = NoDate \<or> gd_boardSize g = None
         \<or> gd_gameEndTime g = 0 \<or> gd_firstClickTime g = 0
      then Inl (MissingSessionInfo, Critical)
      else if gd_gameState g \<noteq> ''won'' then Inl (InvalidGameState, High)
      else if (case gd_timestamp g of DateMs gameStartTime \<Rightarrow> now - gameStartTime > 604800000
               | _ \<Rightarrow> False)
      then Inl (SessionExpired, Medium)
      else if \<bar>(gd_gameEndTime g - gd_firstClickTime g) / 1000 - gd_time g\<bar> > 60
      then Inl (DurationMismatch, High)
      else
        (case (expectedBoardSizes (gd_difficulty g), gd_boardSize g) of
           (Some (ew, eh, em), Some (w, h)) \<Rightarrow>
             if w \<noteq> ew \<or> h \<noteq> eh \<or> gd_mineCount g \<noteq> em then Inl (BoardMismatch, Critical)
             else if (case minMoves (gd_difficulty g) of Some m \<Rightarrow> gd_moves g < m | None \<Rightarrow> False)
             then Inl (TooFewMoves, Critical)
             else if gd_moves g > w * h * 2 then Inl (TooManyMoves, Medium)
             else if gd_time g / gd_moves g < 5 / 100 then Inl (InhumanSpeed, Critical)
             else if gd_time g / gd_moves g > 60 then Inl (TooSlow, Low)
             else Inr ()
         | _ \<Rightarrow> Inl (BoardMismatch, Critical)))"

section \<open>validateScoreReasonableness\<close>

fun minTimes :: "difficulty \<Rightarrow> rat" where
  "minTimes Beginner = 1"
| "minTimes Intermediate = 3"
| "minTimes Expert = 5"

fun maxReasonableTimes :: "difficulty \<Rightarrow> rat" where
  "maxReasonableTimes Beginner = 999"
| "maxReasonableTimes Intermediate = 1999"
| "maxReasonableTimes Expert = 2999"

fun worldRecords :: "difficulty \<Rightarrow> rat" where
  "worldRecords Beginner = 49 / 100"
| "worldRecords Intermediate = 703 / 100"
| "worldRecords Expert = 31133 / 1000"

datatype score_reason =
    Session session_reason | ScoreTooFast | ScoreOutOfRange | BeatsWorldRecord | SuspiciousRound

definition validateScoreReasonableness ::
  "int \<Rightarrow> js_value \<Rightarrow> difficulty \<Rightarrow> game_data option \<Rightarrow> (score_reason \<times> severity) + unit" where
  "validateScoreReasonableness now time d gameData =
     (case (case gameData of None \<Rightarrow> Inr () | Some g \<Rightarrow> validateGameSession now g) of
        Inl (r, _) \<Rightarrow> Inl (Session r, Critical)
      | Inr _ \<Rightarrow>
          if js_lt time (minTimes d) then Inl (ScoreTooFast, High)
          else if js_gt time (maxReasonableTimes d) then Inl (ScoreOutOfRange, Low)
          else if js_lt time (worldRecords d) then Inl (BeatsWorldRecord, Critical)
          else if isInteger time \<and> js_lt time (worldRecords d * 2) then Inl (SuspiciousRound, Medium)
          else Inr ())"

section \<open>Stored data\<close>

text \<open>
  A leaderboard entry as the accept path builds it. Its time is \<open>parseInt(time)\<close>, a
  number that may be NaN; read back from the store it is a number or \<open>null\<close>. Instants
  are milliseconds since the epoch (the source stores them as ISO strings, which \<open>Date\<close>
  reads back exactly).
\<close>

record score_record =
  sr_username :: string
  sr_time :: js_value
  sr_timestamp :: int
  sr_gameId :: string
  sr_moves :: rat
  sr_verified :: bool

text \<open>
  The per-user statistics object of \<open>analyzeUserBehavior\<close>. The three fields computed from
  the submitted time are values of any type (\<open>+=\<close> concatenates once a text is involved);
  \<open>lastSubmission\<close> is \<open>None\<close> for \<open>null\<close>.
\<close>

record user_stats =
  submissions :: int
  bestTime :: js_value
  averageTime :: js_value
  totalTime :: js_value
  lastSubmission :: "int option"
  suspiciousCount :: int

text \<open>The two kinds of JSON document the submission path keeps in the store and the cache.\<close>

datatype json = JTier "score_record list" | JStats user_stats

text \<open>
  What \<open>JSON.parse(JSON.stringify(v))\<close> gives back for a document: the document with
  every NaN or infinite number in it replaced by \<open>null\<close>.
\<close>

definition jsonRecord :: "score_record \<Rightarrow> score_record" where
  "jsonRecord r = r\<lparr>sr_time := jsonValue (sr_time r)\<rparr>"

definition jsonStats :: "user_stats \<Rightarrow> user_stats" where
  "jsonStats st = st\<lparr> bestTime := jsonValue (bestTime st),
                        averageTime := jsonValue (averageTime st),
                        totalTime := jsonValue (totalTime st) \<rparr>"

fun jsonDoc :: "json \<Rightarrow> json" where
  "jsonDoc (JTier l) = JTier (map jsonRecord l)"
| "jsonDoc (JStats st) = JStats (jsonStats st)"

text \<open>
  A text held by the key-value store, by what the code observes of it: its truthiness and
  what \<open>JSON.parse\<close> makes of it.
\<close>

datatype stored =
    Doc json     \<comment> \<open>the \<open>JSON.stringify\<close> text of a document\<close>
  | EmptyText    \<comment> \<open>the empty string: falsy, but not \<open>null\<close>\<close>
  | BadText      \<comment> \<open>a non-empty text that \<open>JSON.parse\<close> rejects with a SyntaxError\<close>

type_synonym kv_store = "string \<rightharpoonup> stored"

section \<open>CacheManager\<close>

record cache_entry =
  data :: json
  expiry :: int
  created :: int
  lastAccessed :: int

record cache_stats =
  hits :: nat
  misses :: nat
  sets :: nat
  evictions :: nat

text \<open>The \<open>Map\<close> is an association list in insertion order, one pair per key.\<close>

record cache_manager =
  cache :: "(string \<times> cache_entry) list"
  stats :: cache_stats
  defaultTTL :: int

text \<open>\<open>CacheManager.createCacheKey(...parts)\<close> and \<open>KVStorageManager.createKey(prefix, ...parts)\<close>:
  the parts joined with colons.\<close>

fun join_colon :: "string list \<Rightarrow> string" where
  "join_colon [] = []"
| "join_colon [p] = p"
| "join_colon (p # ps) = p @ '':'' @ join_colon ps"

definition createCacheKey :: "string list \<Rightarrow> string" where
  "createCacheKey parts = join_colon parts"

definition createKey :: "string \<Rightarrow> string list \<Rightarrow> string" where
  "createKey prefix parts = prefix @ '':'' @ join_colon parts"

text \<open>\<open>get(key)\<close> at clock \<open>now\<close>: the value (\<open>None\<close> for \<open>null\<close>) and the manager after it.\<close>

definition cache_get :: "int \<Rightarrow> cache_manager \<Rightarrow> string \<Rightarrow> json option \<times> cache_manager" where
  "cache_get now c key =
     (case map_of (cache c) key of
        None \<Rightarrow> (None, c\<lparr>stats := (stats c)\<lparr>misses := misses (stats c) + 1\<rparr>\<rparr>)
      | Some entry \<Rightarrow>
          if now > expiry entry
          then (None, c\<lparr>cache := AList.delete key (cache c),
                         stats := (stats c)\<lparr>evictions := evictions (stats c) + 1,
                                            misses := misses (stats c) + 1\<rparr>\<rparr>)
          else (Some (data entry),
                c\<lparr>cache := AList.update key (entry\<lparr>lastAccessed := now\<rparr>) (cache c),
                  stats := (stats c)\<lparr>hits := hits (stats c) + 1\<rparr>\<rparr>))"

text \<open>\<open>cleanup()\<close> deletes every expired entry and adds their number to \<open>evictions\<close>.\<close>

definition cleanup :: "int \<Rightarrow> cache_manager \<Rightarrow> cache_manager" where
  "cleanup now c =
     (let cleaned = length (filter (\<lambda>(key, entry). now > expiry entry) (cache c))
      in c\<lparr>cache := filter (\<lambda>(key, entry). \<not> now > expiry entry) (cache c),
           stats := (stats c)\<lparr>evictions := evictions (stats c) + cleaned\<rparr>\<rparr>)"

text \<open>\<open>set(key, data, ttl)\<close>; a \<open>ttl\<close> of \<open>None\<close> (null) or 0 is falsy and gives the default.\<close>

definition cache_set ::
  "int \<Rightarrow> cache_manager \<Rightarrow> string \<Rightarrow> json \<Rightarrow> int option \<Rightarrow> cache_manager" where
  "cache_set now c key d ttl =
     (let ttl' = (case ttl of None \<Rightarrow> defaultTTL c | Some t \<Rightarrow> if t = 0 then defaultTTL c else t);
          c1 = c\<lparr>cache := AList.update key
                   \<lparr>data = d, expiry = now + ttl', created = now, lastAccessed = now\<rparr> (cache c),
                 stats := (stats c)\<lparr>sets := sets (stats c) + 1\<rparr>\<rparr>
      in if sets (stats c1) mod 100 = 0 then cleanup now c1 else c1)"

definition cache_delete :: "cache_manager \<Rightarrow> string \<Rightarrow> cache_manager" where
  "cache_delete c key = c\<lparr>cache := AList.delete key (cache c)\<rparr>"


section \<open>KVStorageManager\<close>

text \<open>
  The durable store answers every \<open>get\<close> and \<open>put\<close> (a failing store makes each adapter call
  return its fallback; that path is not part of this development), and the expiry of
  stored entries is not modelled. \<open>handleAsyncError\<close> turns an exception of the wrapped body
  into the fallback value, so a throwing branch is written as the fallback directly.
\<close>

definition safeGet ::
  "bool \<Rightarrow> int \<Rightarrow> kv_store \<Rightarrow> cache_manager \<Rightarrow> string \<Rightarrow> json \<Rightarrow> int option
    \<Rightarrow> json \<times> cache_manager" where
  "safeGet useCache now kv c key defaultValue cacheTTL =
     (let cacheKey = createCacheKey [''kv'', key];
          (cached, c1) = (if useCache then cache_get now c cacheKey else (None, c))
      in case cached of
           Some v \<Rightarrow> (v, c1)
         | None \<Rightarrow>
            (case kv key of
               None \<Rightarrow> (defaultValue, c1)
             | Some EmptyText \<Rightarrow>
                 (defaultValue,
                  if useCache then cache_set now c1 cacheKey defaultValue cacheTTL else c1)
             | Some BadText \<Rightarrow> (defaultValue, c1)
             | Some (Doc result) \<Rightarrow>
                 (result, if useCache then cache_set now c1 cacheKey result cacheTTL else c1)))"

text \<open>
  \<open>safePut(key, value, {expirationTtl})\<close>: \<open>true\<close>, the store and the cache after it. The
  store receives the JSON text of the value; the cache keeps the value itself.
\<close>

definition safePut ::
  "bool \<Rightarrow> int \<Rightarrow> kv_store \<Rightarrow> cache_manager \<Rightarrow> string \<Rightarrow> json \<Rightarrow> int option
    \<Rightarrow> bool \<times> kv_store \<times> cache_manager" where
  "safePut useCache now kv c key v expirationTtl =
     (let kv1 = kv(key \<mapsto> Doc (jsonDoc v));
          cacheTTL = (case expirationTtl of
                        None \<Rightarrow> None
                      | Some t \<Rightarrow> if t = 0 then None else Some (min (t * 1000) 300000))
      in (True, kv1,
          if useCache then cache_set now c (createCacheKey [''kv'', key]) v cacheTTL else c))"

section \<open>analyzeUserBehavior\<close>

definition defaultStats :: user_stats where
  "defaultStats = \<lparr> submissions = 0, bestTime = JNull, averageTime = JNum (Finite 0),
                     totalTime = JNum (Finite 0), lastSubmission = None, suspiciousCount = 0 \<rparr>"

datatype behavior_result =
    TemporaryBlock                \<comment> \<open>\<open>suspicious: true, action: 'temporary_block'\<close>\<close>
  | NotSuspicious user_stats bool \<comment> \<open>\<open>suspicious: false, stats, saveSuccess\<close>\<close>
  | BehaviorError                 \<comment> \<open>the fallback \<open>suspicious: false, error: true\<close>\<close>

text \<open>
  The statistics object returned by \<open>safeGet\<close> is the very object the cache holds under the
  key whenever the cache holds one, so an assignment to one of its fields shows in the
  cache entry as well.
\<close>

definition mutate_cached :: "cache_manager \<Rightarrow> string \<Rightarrow> json \<Rightarrow> cache_manager" where
  "mutate_cached c cacheKey v =
     (case map_of (cache c) cacheKey of
        None \<Rightarrow> c
      | Some entry \<Rightarrow> c\<lparr>cache := AList.update cacheKey (entry\<lparr>data := v\<rparr>) (cache c)\<rparr>)"

text \<open>
  \<open>time\<close> is the raw field of the request. A leaderboard array under a statistics key is
  not a state the service produces; the model answers it with the error fallback.
\<close>

definition analyzeUserBehavior ::
  "int \<Rightarrow> kv_store \<Rightarrow> cache_manager \<Rightarrow> string \<Rightarrow> js_value \<Rightarrow> difficulty
    \<Rightarrow> behavior_result \<times> kv_store \<times> cache_manager" where
  "analyzeUserBehavior now kv c username time d =
     (let userKey = createKey ''security'' [''user_stats'', username, difficulty_name d];
          (loaded, c1) = safeGet True now kv c userKey (JStats defaultStats) None
      in case loaded of
           JTier _ \<Rightarrow> (BehaviorError, kv, c1)
         | JStats st \<Rightarrow>
            (let frequent = (case lastSubmission st of
                               None \<Rightarrow> False
                             | Some lastMs \<Rightarrow> of_int (now - lastMs) / 1000 < (300 :: rat));
                 count = (if frequent then suspiciousCount st + 1
                          else max 0 (suspiciousCount st - 1))
             in if frequent \<and> count > 3
                then (TemporaryBlock, kv,
                      mutate_cached c1 (createCacheKey [''kv'', userKey])
                        (JStats (st\<lparr>suspiciousCount := count\<rparr>)))
                else
                  (let n = submissions st + 1;
                       total = js_plus (totalTime st) time;
                       st' = st\<lparr> suspiciousCount := count,
                                 submissions := n,
                                 totalTime := total,
                                 averageTime := JNum (num_div_int (toNumber total) n),
                                 bestTime := (if truthy (bestTime st)
                                              then JNum (num_min (toNumber (bestTime st))
                                                           (toNumber time))
                                              else time),
                                 lastSubmission := Some now \<rparr>;
                       (saveSuccess, kv1, c2) = safePut True now kv c1 userKey (JStats st') (Some 604800)
                   in (NotSuspicious st' saveSuccess, kv1, c2))))"


section \<open>DataValidator.validateUsername\<close>

text \<open>
  A user name is a list of code units below 256, so the CJK range of the source's
  whitelist has no inhabitant here.
\<close>

definition allowedChar :: "char \<Rightarrow> bool" where
  "allowedChar ch =
     (let n = (of_char ch :: nat)
      in (97 \<le> n \<and> n \<le> 122) \<or> (65 \<le> n \<and> n \<le> 90) \<or> (48 \<le> n \<and> n \<le> 57)
         \<or> ch = CHR ''_'' \<or> ch = CHR ''-'' \<or> isSpace ch)"

definition specialChar :: "char \<Rightarrow> bool" where
  "specialChar ch = (ch = CHR ''_'' \<or> ch = CHR ''-'' \<or> isSpace ch)"

text \<open>The pattern \<open><[^>]*>\<close>: a \<open><\<close> with a \<open>>\<close> somewhere after it.\<close>

definition hasHtmlTag :: "string \<Rightarrow> bool" where
  "hasHtmlTag s = (case dropWhile (\<lambda>ch. ch \<noteq> CHR ''<'') s of
                     [] \<Rightarrow> False
                   | _ # rest \<Rightarrow> CHR ''>'' \<in> set rest)"

datatype username_error =
    NameNotString | NameEmpty | NameTooLong | NameIllegalChars | NameOnlySpecial | NameHtml

text \<open>\<open>None\<close> is a value that is not a string.\<close>

definition validateUsername :: "string option \<Rightarrow> username_error + string" where
  "validateUsername username =
     (case username of
        None \<Rightarrow> Inl NameNotString
      | Some u \<Rightarrow>
          if u = [] then Inl NameNotString
          else let trimmed = trim u
               in if length trimmed = 0 then Inl NameEmpty
                  else if length trimmed > 16 then Inl NameTooLong
                  else if \<not> list_all allowedChar trimmed then Inl NameIllegalChars
                  else if list_all specialChar trimmed then Inl NameOnlySpecial
                  else if hasHtmlTag trimmed then Inl NameHtml
                  else Inr trimmed)"

section \<open>handleLeaderboardAPI, POST\<close>

text \<open>\<open>Array.prototype.findIndex\<close>; \<open>None\<close> is \<open>-1\<close>.\<close>

fun findIndex :: "('a \<Rightarrow> bool) \<Rightarrow> 'a list \<Rightarrow> nat option" where
  "findIndex P [] = None"
| "findIndex P (x # xs) =
     (if P x then Some 0 else map_option Suc (findIndex P xs))"

text \<open>The body of a submission; \<open>pb_time\<close> is the raw \<open>time\<close> field.\<close>

record post_body =
  pb_username :: "string option"
  pb_time :: js_value
  pb_gameData :: "game_data option"

record submitted =
  sub_username :: string
  sub_time :: js_value
  sub_difficulty :: difficulty
  sub_improved :: "bool option"     \<comment> \<open>\<open>None\<close>: the field is absent\<close>
  sub_currentBest :: "js_value option"   \<comment> \<open>\<open>None\<close>: the field is absent\<close>
  sub_rank :: "nat option"          \<comment> \<open>\<open>None\<close> is \<open>null\<close>\<close>

datatype body =
    Failure string
      \<comment> \<open>\<open>success: false\<close> with the error code\<close>
  | Success "score_record list" submitted "int option"
      \<comment> \<open>\<open>success: true\<close>: \<open>data\<close>, \<open>meta.submitted\<close>, and \<open>meta.rateLimit.remaining\<close> when present\<close>

record response =
  status :: nat
  body :: body

definition createErrorResponse :: "string \<Rightarrow> nat \<Rightarrow> response" where
  "createErrorResponse code st = \<lparr> status = st, body = Failure code \<rparr>"

text \<open>
  The read at the head of the accept path, \<open>data ? JSON.parse(data) : []\<close> on the raw
  store. \<open>None\<close> stands for the two ways the closure then throws and is answered by its
  fallback, the 500 response: a text that does not parse, and a document that is not an
  array (its \<open>find\<close> is not a function).
\<close>

definition readTier :: "kv_store \<Rightarrow> difficulty \<Rightarrow> score_record list option" where
  "readTier kv d =
     (case kv (''leaderboard:'' @ difficulty_name d) of
        None \<Rightarrow> Some []
      | Some EmptyText \<Rightarrow> Some []
      | Some (Doc (JTier l)) \<Rightarrow> Some l
      | Some (Doc (JStats _)) \<Rightarrow> None
      | Some BadText \<Rightarrow> None)"

text \<open>
  \<open>Array.prototype.sort\<close> with a comparator, as the engine of the Workers runtime (V8)
  runs it on an array of fewer than 64 elements: the run the array starts with is
  found (and reversed if it descends), then every later element is placed by binary
  insertion. \<open>precedes a b\<close> says that the comparator gives a negative number for
  \<open>(a, b)\<close>; a NaN from the comparator counts as 0.
\<close>

fun runLength :: "('a \<Rightarrow> 'a \<Rightarrow> bool) \<Rightarrow> bool \<Rightarrow> 'a \<Rightarrow> 'a list \<Rightarrow> nat" where
  "runLength precedes descending previous [] = 0"
| "runLength precedes descending previous (current # rest) =
     (if descending = precedes current previous
      then Suc (runLength precedes descending current rest)
      else 0)"

function insertionPoint :: "('a \<Rightarrow> 'a \<Rightarrow> bool) \<Rightarrow> 'a \<Rightarrow> 'a list \<Rightarrow> nat \<Rightarrow> nat \<Rightarrow> nat" where
  "insertionPoint precedes pivot arr left right =
     (if left < right
      then (let mid = left + (right - left) div 2
            in if precedes pivot (arr ! mid)
               then insertionPoint precedes pivot arr left mid
               else insertionPoint precedes pivot arr (mid + 1) right)
      else left)"
  by pat_completeness auto
termination
  by (relation "measure (\<lambda>(precedes, pivot, arr, left, right). right - left)") auto

declare insertionPoint.simps [simp del]

definition binaryInsert :: "('a \<Rightarrow> 'a \<Rightarrow> bool) \<Rightarrow> 'a list \<Rightarrow> 'a \<Rightarrow> 'a list" where
  "binaryInsert precedes arr pivot =
     (let left = insertionPoint precedes pivot arr 0 (length arr)
      in take left arr @ pivot # drop left arr)"

definition engineSort :: "('a \<Rightarrow> 'a \<Rightarrow> bool) \<Rightarrow> 'a list \<Rightarrow> 'a list" where
  "engineSort precedes xs =
     (case xs of
        first # second # rest \<Rightarrow>
          (let descending = precedes second first;
               n = 2 + runLength precedes descending second rest;
               run = take n xs
           in foldl (binaryInsert precedes) (if descending then rev run else run) (drop n xs))
      | _ \<Rightarrow> xs)"

text \<open>
  \<open>leaderboard.sort((a, b) => a.time - b.time)\<close>. When every time is a finite number
  the comparator is consistent and the language fixes the result, the stable sort by
  time; otherwise the order is the one the engine's procedure leaves.
\<close>

definition timeBefore :: "score_record \<Rightarrow> score_record \<Rightarrow> bool" where
  "timeBefore a b = num_less (toNumber (sr_time a)) (toNumber (sr_time b))"

definition timeKey :: "score_record \<Rightarrow> rat" where
  "timeKey r = (case toNumber (sr_time r) of Finite q \<Rightarrow> q | _ \<Rightarrow> 0)"

definition finiteTime :: "score_record \<Rightarrow> bool" where
  "finiteTime r = (case toNumber (sr_time r) of Finite q \<Rightarrow> True | _ \<Rightarrow> False)"

definition sortByTime :: "score_record list \<Rightarrow> score_record list" where
  "sortByTime xs =
     (if list_all finiteTime xs then sort_key timeKey xs else engineSort timeBefore xs)"

text \<open>
  The accept path from the read of the tier to the response (source lines 1188 to 1303):
  the duplicate guard, the replace-or-append step, the sort, the cut to 20, the write and
  the two cache deletions. \<open>time\<close> is the raw field of the request; the record and the
  comparison use \<open>parseInt(time)\<close>. The store and the response receive JSON text, in
  which a NaN time is \<open>null\<close>. \<open>storage.cache\<close> and \<open>globalCache\<close> are the same object.
\<close>

definition acceptScore ::
  "int \<Rightarrow> int \<Rightarrow> difficulty \<Rightarrow> kv_store \<Rightarrow> cache_manager \<Rightarrow> string \<Rightarrow> js_value \<Rightarrow> game_data
    \<Rightarrow> response \<times> kv_store \<times> cache_manager" where
  "acceptScore now remaining d kv c trimmedUsername time gameData =
     (let tierKey = ''leaderboard:'' @ difficulty_name d in
      case readTier kv d of
        None \<Rightarrow> (createErrorResponse ''SERVER_ERROR'' 500, kv, c)
      | Some leaderboard \<Rightarrow>
          if find (\<lambda>record. sr_gameId record = gd_gameId gameData) leaderboard \<noteq> None
          then (createErrorResponse ''DUPLICATE_GAME'' 400, kv, c)
          else
            (let scoreRecord = \<lparr> sr_username = trimmedUsername, sr_time = JNum (parseIntValue time),
                                 sr_timestamp = now, sr_gameId = gd_gameId gameData,
                                 sr_moves = gd_moves gameData, sr_verified = True \<rparr>;
                 existingIndex = findIndex (\<lambda>record. sr_username record = trimmedUsername) leaderboard
             in case (case existingIndex of
                        Some i \<Rightarrow>
                          if num_less (parseIntValue time) (toNumber (sr_time (leaderboard ! i)))
                          then Inr (leaderboard[i := scoreRecord])
                          else Inl (sr_time (leaderboard ! i))
                      | None \<Rightarrow> Inr (leaderboard @ [scoreRecord])) of
                  Inl currentBest \<Rightarrow>
                    (\<lparr> status = 200,
                       body = Success (map jsonRecord (take 20 leaderboard))
                         \<lparr> sub_username = trimmedUsername,
                           sub_time = jsonValue (JNum (parseIntValue time)), sub_difficulty = d,
                           sub_improved = Some False,
                           sub_currentBest = Some (jsonValue currentBest),
                           sub_rank = map_option Suc
                             (findIndex (\<lambda>record. sr_username record = trimmedUsername)
                                (take 20 leaderboard)) \<rparr>
                         None \<rparr>,
                     kv, c)
                | Inr updated \<Rightarrow>
                    (let top20 = take 20 (sortByTime updated);
                         kv1 = kv(tierKey \<mapsto> Doc (jsonDoc (JTier top20)));
                         c1 = cache_delete c (createCacheKey [''leaderboard'', difficulty_name d]);
                         kvCacheKey = createCacheKey [''kv'', ''leaderboard:'' @ difficulty_name d];
                         c2 = cache_delete c1 kvCacheKey;
                         c3 = cache_delete c2 kvCacheKey
                     in (\<lparr> status = 200,
                            body = Success (map jsonRecord top20)
                              \<lparr> sub_username = trimmedUsername,
                                sub_time = jsonValue (JNum (parseIntValue time)), sub_difficulty = d,
                                sub_improved = None, sub_currentBest = None,
                                sub_rank = Some (case findIndex
                                    (\<lambda>record. sr_username record = trimmedUsername) top20 of
                                      None \<Rightarrow> 0 | Some i \<Rightarrow> Suc i) \<rparr>
                              (Some remaining) \<rparr>,
                         kv1, c3))))"

text \<open>
  The POST closure of \<open>handleLeaderboardAPI\<close>, entered after the difficulty check and the
  rate limiter have passed; \<open>remaining\<close> is \<open>rateLimitResult.remaining\<close>. The four
  validators run through the concurrency limiter and are then read in their fixed order;
  the difficulty and the presence of the game-data fields hold by the types here.
\<close>

definition handlePost ::
  "int \<Rightarrow> int \<Rightarrow> difficulty \<Rightarrow> kv_store \<Rightarrow> cache_manager \<Rightarrow> post_body
    \<Rightarrow> response \<times> kv_store \<times> cache_manager" where
  "handlePost now remaining d kv c requestData =
     (case pb_gameData requestData of
        None \<Rightarrow> (createErrorResponse ''MISSING_GAME_DATA'' 400, kv, c)
      | Some gameData \<Rightarrow>
         (case validateUsername (pb_username requestData) of
            Inl _ \<Rightarrow> (createErrorResponse ''INVALID_USERNAME'' 400, kv, c)
          | Inr trimmedUsername \<Rightarrow>
            let username = (case pb_username requestData of Some u \<Rightarrow> u | None \<Rightarrow> []) in
             (case validateTime (pb_time requestData) of
                Inl _ \<Rightarrow> (createErrorResponse ''INVALID_TIME'' 400, kv, c)
              | Inr _ \<Rightarrow>
                 (case validateScoreReasonableness now (pb_time requestData) d
                         (Some gameData) of
                    Inl _ \<Rightarrow> (createErrorResponse ''UNREASONABLE_SCORE'' 400, kv, c)
                  | Inr _ \<Rightarrow>
                     (case analyzeUserBehavior now kv c username
                             (pb_time requestData) d of
                        (TemporaryBlock, kv1, c1) \<Rightarrow>
                          (createErrorResponse ''SUSPICIOUS_BEHAVIOR'' 429, kv1, c1)
                      | (_, kv1, c1) \<Rightarrow>
                          acceptScore now remaining d kv1 c1 trimmedUsername
                            (pb_time requestData) gameData)))))"


section \<open>Hashing and splitting\<close>

text \<open>
  The rolling hash of \<open>generateTokenSignature\<close> and \<open>generateClientFingerprint\<close>:
  \<open>hash = ((hash << 5) - hash) + char; hash = hash & hash\<close>, with the shift and the
  \<open>&\<close> reducing to a signed 32-bit integer, then \<open>Math.abs(hash).toString(36)\<close>.
\<close>

definition toInt32 :: "int \<Rightarrow> int" where
  "toInt32 x = (x + 2 ^ 31) mod 2 ^ 32 - 2 ^ 31"

definition hashStep :: "int \<Rightarrow> char \<Rightarrow> int" where
  "hashStep h ch = toInt32 (toInt32 (h * 32) - h + int (of_char ch))"

definition hashString :: "string \<Rightarrow> string" where
  "hashString s = toString36 (nat \<bar>foldl hashStep 0 s\<bar>)"

text \<open>\<open>String.prototype.split(':')\<close>.\<close>

fun split_colon :: "string \<Rightarrow> string list" where
  "split_colon [] = [[]]"
| "split_colon (ch # s) =
     (if ch = CHR '':'' then [] # split_colon s
      else (case split_colon s of
              p # ps \<Rightarrow> (ch # p) # ps
            | [] \<Rightarrow> [[ch]]))"

text \<open>
  The store as the token guard and the rate limiter see it: raw texts. A value is truthy
  when it is present and not empty.
\<close>

type_synonym text_store = "string \<rightharpoonup> string"

section \<open>Admin tokens\<close>

definition secureCompare :: "string \<Rightarrow> string \<Rightarrow> bool" where
  "secureCompare a b =
     (if length a \<noteq> length b then False
      else foldl (\<lambda>result (x, y). result OR ((of_char x :: int) XOR of_char y)) 0 (zip a b) = 0)"

definition generateTokenSignature :: "string \<Rightarrow> string \<Rightarrow> string" where
  "generateTokenSignature timestamp adminKey = hashString (timestamp @ '':'' @ adminKey)"

text \<open>
  A bearer token: the text presented, and what \<open>atob\<close> makes of it (\<open>None\<close> when \<open>atob\<close>
  throws).
\<close>

record bearer_token =
  tok_text :: string
  tok_decoded :: "string option"

datatype token_reason =
    invalid_token_format | invalid_token_structure | token_expired | invalid_signature
  | token_already_used

text \<open>\<open>Inr ()\<close> is \<open>valid: true\<close>; \<open>now\<close> is \<open>Date.now()\<close>.\<close>

definition validateAdminToken ::
  "int \<Rightarrow> string \<Rightarrow> text_store \<Rightarrow> bearer_token \<Rightarrow> (token_reason + unit) \<times> text_store" where
  "validateAdminToken now adminKey store token =
     (case tok_decoded token of
        None \<Rightarrow> (Inl invalid_token_format, store)
      | Some decodedToken \<Rightarrow>
          (case split_colon decodedToken of
             [timestampStr, signature] \<Rightarrow>
               (let timestamp = parseInt timestampStr;
                    expired = (case timestamp of
                                 None \<Rightarrow> False
                               | Some ts \<Rightarrow> now - ts > 300000 \<or> now - ts < 0)
                in if expired then (Inl token_expired, store)
                   else if \<not> secureCompare signature (generateTokenSignature timestampStr adminKey)
                   then (Inl invalid_signature, store)
                   else
                     (let tokenKey = ''security:used_token:'' @ tok_text token
                      in if (case store tokenKey of None \<Rightarrow> False | Some v \<Rightarrow> v \<noteq> [])
                         then (Inl token_already_used, store)
                         else (Inr (), store(tokenKey \<mapsto> ''used''))))
           | _ \<Rightarrow> (Inl invalid_token_structure, store)))"


section \<open>The rate limiter\<close>

text \<open>The four request headers the limiter reads; \<open>None\<close> is an absent header.\<close>

record request =
  cf_connecting_ip :: "string option"
  user_agent :: "string option"
  accept_language :: "string option"
  accept_encoding :: "string option"

text \<open>\<open>headers.get(name) || fallback\<close>: an absent or empty header gives the fallback.\<close>

definition header_or :: "string option \<Rightarrow> string \<Rightarrow> string" where
  "header_or h fallback = (case h of None \<Rightarrow> fallback | Some v \<Rightarrow> if v = [] then fallback else v)"

definition generateClientFingerprint :: "request \<Rightarrow> string" where
  "generateClientFingerprint req =
     hashString (header_or (cf_connecting_ip req) ''unknown'' @ '':''
                 @ header_or (user_agent req) [] @ '':''
                 @ header_or (accept_language req) [] @ '':''
                 @ header_or (accept_encoding req) [])"

datatype scope = ScopeIp | ScopeFingerprint | ScopeGlobal

record rate_check =
  rc_key :: string
  rc_limit :: int
  rc_type :: scope

text \<open>\<open>rateLimitConfig\<close> for the minute of \<open>now\<close>; a template prints an absent header as \<open>null\<close>.\<close>

definition rateLimitConfig :: "int \<Rightarrow> request \<Rightarrow> rate_check list" where
  "rateLimitConfig now req =
     (let minute = numberToString (Some (now div 60000)) in
      [\<lparr> rc_key = ''rate_limit:ip:''
                  @ (case cf_connecting_ip req of None \<Rightarrow> ''null'' | Some a \<Rightarrow> a)
                  @ '':'' @ minute,
          rc_limit = 20, rc_type = ScopeIp \<rparr>,
       \<lparr> rc_key = ''rate_limit:fingerprint:'' @ generateClientFingerprint req @ '':'' @ minute,
          rc_limit = 15, rc_type = ScopeFingerprint \<rparr>,
       \<lparr> rc_key = ''rate_limit:global:'' @ minute,
          rc_limit = 1000, rc_type = ScopeGlobal \<rparr>])"

text \<open>\<open>current ? parseInt(current) : 0\<close>; \<open>None\<close> is NaN.\<close>

definition readCount :: "text_store \<Rightarrow> string \<Rightarrow> int option" where
  "readCount store securityKey =
     (case store securityKey of
        None \<Rightarrow> Some 0
      | Some current \<Rightarrow> if current = [] then Some 0 else parseInt current)"

datatype rate_reason = TooFrequent | SystemBusy

record rate_result =
  rl_allowed :: bool
  rl_remaining :: "int option"       \<comment> \<open>\<open>None\<close> is NaN\<close>
  rl_reason :: "rate_reason option"  \<comment> \<open>\<open>None\<close>: the field is absent\<close>

datatype js_exception = ReferenceError string

text \<open>
  The module defines no \<open>logSecurityEvent\<close> (its logging functions were removed), so
  evaluating the call throws a ReferenceError before anything is recorded.
\<close>

definition logSecurityEvent :: "text_store \<Rightarrow> scope \<Rightarrow> int \<Rightarrow> int \<Rightarrow> js_exception + text_store" where
  "logSecurityEvent store ty count limit = Inl (ReferenceError ''logSecurityEvent'')"

text \<open>A comparison with NaN is false.\<close>

definition overLimit :: "text_store \<Rightarrow> rate_check \<Rightarrow> bool" where
  "overLimit store check =
     (case readCount store (''security:'' @ rc_key check) of
        None \<Rightarrow> False
      | Some count \<Rightarrow> count \<ge> rc_limit check)"

text \<open>The update of one counter: \<open>put(securityKey, (count + 1).toString())\<close>.\<close>

definition bump :: "text_store \<Rightarrow> text_store \<Rightarrow> rate_check \<Rightarrow> text_store" where
  "bump before store check =
     store(''security:'' @ rc_key check \<mapsto>
       numberToString (map_option (\<lambda>count. count + 1)
         (readCount before (''security:'' @ rc_key check))))"

text \<open>
  The body that \<open>checkRateLimit\<close> hands to \<open>handleAsyncError\<close>. All counters are read
  first; the first check at or above its limit logs and returns the refusal; otherwise
  every counter is written back incremented from the value read.
\<close>

definition checkRateLimit_body ::
  "int \<Rightarrow> request \<Rightarrow> text_store \<Rightarrow> js_exception + (rate_result \<times> text_store)" where
  "checkRateLimit_body now req store =
     (let checks = rateLimitConfig now req in
      case find (overLimit store) checks of
        Some result \<Rightarrow>
          (case logSecurityEvent store (rc_type result)
                  (case readCount store (''security:'' @ rc_key result) of Some n \<Rightarrow> n | None \<Rightarrow> 0)
                  (rc_limit result) of
             Inl e \<Rightarrow> Inl e
           | Inr store1 \<Rightarrow>
               Inr (\<lparr> rl_allowed = False, rl_remaining = Some 0, rl_reason = Some TooFrequent \<rparr>, store1))
      | None \<Rightarrow>
          Inr (\<lparr> rl_allowed = True,
                 rl_remaining =
                   (case find (\<lambda>r. rc_type r = ScopeFingerprint) checks of
                      Some fingerprintResult \<Rightarrow>
                        map_option (\<lambda>count. rc_limit fingerprintResult - count - 1)
                          (readCount store (''security:'' @ rc_key fingerprintResult))
                    | None \<Rightarrow> None),
                 rl_reason = None \<rparr>,
               foldl (bump store) store checks))"

text \<open>\<open>handleAsyncError\<close>: an exception is logged to the console and the fallback returned.\<close>

definition checkRateLimit :: "int \<Rightarrow> request \<Rightarrow> text_store \<Rightarrow> rate_result \<times> text_store" where
  "checkRateLimit now req store =
     (case checkRateLimit_body now req store of
        Inl _ \<Rightarrow> (\<lparr> rl_allowed = False, rl_remaining = Some 0, rl_reason = Some SystemBusy \<rparr>, store)
      | Inr result \<Rightarrow> result)"

section \<open>Concrete inputs\<close>

text \<open>An expert game of 40 seconds and 120 moves, consistent in every field.\<close>

definition expert_game_40 :: game_data where
  "expert_game_40 =
     \<lparr> gd_difficulty = ''expert'', gd_time = 40, gd_moves = 120, gd_gameId = ''g-1'',
       gd_timestamp = DateMs 1000000, gd_boardSize = Some (30, 16), gd_mineCount = 99,
       gd_gameEndTime = 1041000, gd_firstClickTime = 1001000, gd_gameState = ''won'' \<rparr>"


text \<open>The global cache as the module creates it: empty, with a default TTL of 60 seconds.\<close>

definition globalCache0 :: cache_manager where
  "globalCache0 = \<lparr> cache = [], stats = \<lparr> hits = 0, misses = 0, sets = 0, evictions = 0 \<rparr>,
                    defaultTTL = 60000 \<rparr>"

text \<open>A beginner tier in which alice holds 50 seconds, won in game \<open>g0\<close>.\<close>

definition alice50 :: score_record where
  "alice50 = \<lparr> sr_username = ''alice'', sr_time = JNum (Finite 50), sr_timestamp = 900000,
               sr_gameId = ''g0'', sr_moves = 30, sr_verified = True \<rparr>"

definition kv_alice :: kv_store where
  "kv_alice = Map.empty(''leaderboard:beginner'' \<mapsto> Doc (JTier [alice50]))"

text \<open>A consistent beginner game \<open>g1\<close>; the duration it reports is 45 seconds.\<close>

definition beginner_game :: game_data where
  "beginner_game =
     \<lparr> gd_difficulty = ''beginner'', gd_time = 45, gd_moves = 30, gd_gameId = ''g1'',
       gd_timestamp = DateMs 1000000, gd_boardSize = Some (9, 9), gd_mineCount = 10,
       gd_gameEndTime = 1046000, gd_firstClickTime = 1001000, gd_gameState = ''won'' \<rparr>"



text \<open>The record the second submission stores.\<close>

definition alice40 :: score_record where
  "alice40 = \<lparr> sr_username = ''alice'', sr_time = JNum (Finite 40), sr_timestamp = 1060000,
               sr_gameId = ''g1'', sr_moves = 30, sr_verified = True \<rparr>"

text \<open>
  A cache that holds the beginner tier under both of its keys, as a GET request leaves
  the adapter's entry, and alice's submission of \<open>g1\<close> with 40 seconds against it.
\<close>

definition warm_cache :: cache_manager where
  "warm_cache =
     \<lparr> cache = [(''leaderboard:beginner'',
                  \<lparr> data = JTier [alice50], expiry = 1080000, created = 1020000,
                    lastAccessed = 1020000 \<rparr>),
                (''kv:leaderboard:beginner'',
                  \<lparr> data = JTier [alice50], expiry = 1080000, created = 1050000,
                    lastAccessed = 1050000 \<rparr>)],
       stats = \<lparr> hits = 0, misses = 1, sets = 2, evictions = 0 \<rparr>,
       defaultTTL = 60000 \<rparr>"

definition warm_submission :: "response \<times> kv_store \<times> cache_manager" where
  "warm_submission =
     handlePost 1060000 13 Beginner kv_alice warm_cache
       \<lparr> pb_username = Some ''alice'', pb_time = JNum (Finite 40), pb_gameData = Some beginner_game \<rparr>"

text \<open>
  Statistics of a user who has submitted three times in quick succession, last at
  1000000 ms, stored under alice's beginner key.
\<close>

definition busy_stats :: user_stats where
  "busy_stats = \<lparr> submissions = 4, bestTime = JNum (Finite 50), averageTime = JNum (Finite 55),
                   totalTime = JNum (Finite 220), lastSubmission = Some 1000000,
                   suspiciousCount = 3 \<rparr>"

definition kv_busy :: kv_store where
  "kv_busy = kv_alice(''security:user_stats:alice:beginner'' \<mapsto> Doc (JStats busy_stats))"

definition alice_posts_40 :: post_body where
  "alice_posts_40 =
     \<lparr> pb_username = Some ''alice'', pb_time = JNum (Finite 40), pb_gameData = Some beginner_game \<rparr>"

text \<open>A store whose beginner tier entry is the empty string.\<close>

definition kv_empty_text :: kv_store where
  "kv_empty_text = Map.empty(''leaderboard:beginner'' \<mapsto> EmptyText)"

text \<open>
  An admin key of 32 characters, and two bearer tokens whose timestamp part is \<open>abc\<close>: one
  signed for that text with the key, one with an arbitrary signature.
\<close>

definition adminKey32 :: string where
  "adminKey32 = ''0123456789abcdef0123456789abcdef''"

definition token_abc_signed :: bearer_token where
  "token_abc_signed = \<lparr> tok_text = ''YWJjOmFyajFpZw=='', tok_decoded = Some ''abc:arj1ig'' \<rparr>"

definition token_abc_unsigned :: bearer_token where
  "token_abc_unsigned = \<lparr> tok_text = ''YWJjOnh5eg=='', tok_decoded = Some ''abc:xyz'' \<rparr>"

text \<open>
  A request, and a store in which the counter of its IP address for the minute of
  1700000100000 ms stands at 20.
\<close>

definition request0 :: request where
  "request0 = \<lparr> cf_connecting_ip = Some ''203.0.113.7'', user_agent = Some ''ua'',
                 accept_language = None, accept_encoding = None \<rparr>"

definition store_ip_20 :: text_store where
  "store_ip_20 = Map.empty(''security:rate_limit:ip:203.0.113.7:28333335'' \<mapsto> ''20'')"

text \<open>A consistent intermediate game of 10 seconds and 40 moves.\<close>

definition intermediate_game_10 :: game_data where
  "intermediate_game_10 =
     \<lparr> gd_difficulty = ''intermediate'', gd_time = 10, gd_moves = 40, gd_gameId = ''g-2'',
       gd_timestamp = DateMs 1000000, gd_boardSize = Some (16, 16), gd_mineCount = 40,
       gd_gameEndTime = 1011000, gd_firstClickTime = 1001000, gd_gameState = ''won'' \<rparr>"

text \<open>
  Three submissions of game \<open>g1\<close> against the tier in which alice holds 50 seconds, each
  with a time sent as a text: alice with \<open>"1e2"\<close> (the number 100), alice with
  \<open>".5e1"\<close> (the number 5), and a new user bob with \<open>".5e1"\<close>.
\<close>

definition alice_posts_1e2 :: "response \<times> kv_store \<times> cache_manager" where
  "alice_posts_1e2 =
     handlePost 1050000 14 Beginner kv_alice globalCache0
       \<lparr> pb_username = Some ''alice'', pb_time = JStr ''1e2'', pb_gameData = Some beginner_game \<rparr>"

definition alice_posts_5e1 :: "response \<times> kv_store \<times> cache_manager" where
  "alice_posts_5e1 =
     handlePost 1050000 14 Beginner kv_alice globalCache0
       \<lparr> pb_username = Some ''alice'', pb_time = JStr ''.5e1'', pb_gameData = Some beginner_game \<rparr>"

definition bob_posts_5e1 :: "response \<times> kv_store \<times> cache_manager" where
  "bob_posts_5e1 =
     handlePost 1050000 14 Beginner kv_alice globalCache0
       \<lparr> pb_username = Some ''bob'', pb_time = JStr ''.5e1'', pb_gameData = Some beginner_game \<rparr>"

text \<open>The records these submissions leave in the store.\<close>

definition alice1 :: score_record where
  "alice1 = \<lparr> sr_username = ''alice'', sr_time = JNum (Finite 1), sr_timestamp = 1050000,
              sr_gameId = ''g1'', sr_moves = 30, sr_verified = True \<rparr>"

definition bob_null :: score_record where
  "bob_null = \<lparr> sr_username = ''bob'', sr_time = JNull, sr_timestamp = 1050000,
                sr_gameId = ''g1'', sr_moves = 30, sr_verified = True \<rparr>"




section \<open>Properties of score validation\<close>

lemmas number_reading =
  stringToNumber_def trim_def isSpace_def basePrefix_def strDecimal_def exponentPart_def
  decimalValue_def decimalChar_def

lemma number_of_text_40: "stringToNumber ''40'' = Finite 40"
  by (simp add: number_reading)

lemma number_of_text_10: "stringToNumber ''10'' = Finite 10"
  by (simp add: number_reading)

text \<open>A number-typed time that \<open>validateTime\<close> admits is an integer from 1 to 9999.\<close>

lemma validateTime_number:
  "validateTime (JNum (Finite q)) = Inr t \<longleftrightarrow> t = q \<and> q = of_int \<lfloor>q\<rfloor> \<and> 1 \<le> q \<and> q \<le> 9999"
  by (auto simp: validateTime_def)

text \<open>
  For a number-typed time the round-time rule rejects every admitted intermediate time up
  to 14 and every admitted expert time up to 62, and never fires for a beginner time.
\<close>

lemma round_time_numbers:
  assumes "validateTime (JNum (Finite q)) = Inr t"
  shows "q \<le> 14 \<Longrightarrow> isl (validateScoreReasonableness now (JNum (Finite q)) Intermediate gameData)"
    and "q \<le> 62 \<Longrightarrow> isl (validateScoreReasonableness now (JNum (Finite q)) Expert gameData)"
    and "validateScoreReasonableness now (JNum (Finite q)) Beginner gameData
           \<noteq> Inl (SuspiciousRound, Medium)"
    and "validateScoreReasonableness now (JNum (Finite q)) Beginner gameData
           \<noteq> Inl (BeatsWorldRecord, Critical)"
    and "validateScoreReasonableness now (JNum (Finite q)) Beginner gameData
           \<noteq> Inl (ScoreTooFast, High)"
  using assms
  by (auto simp: validateTime_def validateScoreReasonableness_def js_lt_def js_gt_def
      split: sum.splits option.splits prod.splits if_splits)

text \<open>
  The three magnitude checks go by the numeric value of the time, whatever its type and
  whatever the game data: a value below the floor (1/3/5), above the ceiling
  (999/1999/2999) or below the world-record reference (0.49/7.03/31.133) is rejected.
  The round-time rule rejects every number-typed integer below twice the world record.
\<close>

lemma score_magnitude_by_value:
  assumes "toNumber time = Finite q"
    and "q < minTimes d \<or> q > maxReasonableTimes d \<or> q < worldRecords d"
  shows "isl (validateScoreReasonableness now time d gameData)"
  using assms
  by (auto simp: validateScoreReasonableness_def js_lt_def js_gt_def
      split: sum.splits option.splits prod.splits)

lemma round_rule_on_numbers:
  assumes "of_int n < worldRecords d * 2"
  shows "isl (validateScoreReasonableness now (JNum (Finite (of_int n))) d gameData)"
  using assms
  by (auto simp: validateScoreReasonableness_def js_lt_def js_gt_def
      split: sum.splits option.splits prod.splits)

text \<open>
  Claim C6. The round-time rule is meant for integer times below twice the world record,
  but it tests \<open>Number.isInteger\<close> on the raw field. On the intermediate tier the time 10
  (between 7.03 and 14.06) is rejected as a suspicious round time when it is sent as the
  number 10, and passes every check of \<open>validateScoreReasonableness\<close> when it is sent
  as the text \<open>"10"\<close>, which \<open>validateTime\<close> has admitted as the integer 10.
\<close>

theorem round_rule_skips_text_times:
  "validateTime (JStr ''10'') = Inr 10
   \<and> validateScoreReasonableness 1050000 (JStr ''10'') Intermediate (Some intermediate_game_10)
       = Inr ()
   \<and> validateScoreReasonableness 1050000 (JNum (Finite 10)) Intermediate (Some intermediate_game_10)
       = Inl (SuspiciousRound, Medium)"
  by (simp add: validateTime_def validateScoreReasonableness_def validateGameSession_def
      intermediate_game_10_def expectedBoardSizes_def minMoves_def js_lt_def js_gt_def
      number_of_text_10)

theorem round_rule_skips_text_times_witness:
  "isl (validateScoreReasonableness 1050000 (JNum (Finite 10)) Intermediate
          (Some intermediate_game_10))
   \<and> \<not> isl (validateScoreReasonableness 1050000 (JStr ''10'') Intermediate
          (Some intermediate_game_10))"
  using round_rule_skips_text_times by simp

text \<open>
  Claim C10. A request whose time is the string \<open>"40"\<close> passes \<open>validateTime\<close> (which
  converts it with \<open>Number\<close>) and, on the expert tier with consistent game data, passes
  \<open>validateScoreReasonableness\<close> as well: \<open>Number.isInteger\<close> is false for a string, so the
  round-time rule does not fire, although 40 is below twice the world record.
\<close>

theorem string_time_passes_round_check:
  "validateTime (JStr ''40'') = Inr 40
   \<and> validateScoreReasonableness 1050000 (JStr ''40'') Expert (Some expert_game_40) = Inr ()
   \<and> validateScoreReasonableness 1050000 (JNum (Finite 40)) Expert (Some expert_game_40)
       = Inl (SuspiciousRound, Medium)"
  by (simp add: validateTime_def validateScoreReasonableness_def validateGameSession_def
      expert_game_40_def expectedBoardSizes_def minMoves_def js_lt_def js_gt_def
      number_of_text_40)

theorem string_time_passes_round_check_witness:
  "isl (validateScoreReasonableness 1050000 (JNum (Finite 40)) Expert (Some expert_game_40))
   \<and> \<not> isl (validateScoreReasonableness 1050000 (JStr ''40'') Expert (Some expert_game_40))"
  using string_time_passes_round_check by simp

section \<open>Lists, and the shape of the accept path\<close>

lemma findIndex_None: "findIndex P xs = None \<longleftrightarrow> (\<forall>x\<in>set xs. \<not> P x)"
  by (induction xs) auto

lemma findIndex_Some:
  "findIndex P xs = Some i \<Longrightarrow> i < length xs \<and> P (xs ! i) \<and> (\<forall>j<i. \<not> P (xs ! j))"
proof (induction xs arbitrary: i)
  case Nil
  then show ?case by simp
next
  case (Cons x xs)
  show ?case
  proof (cases "P x")
    case True
    with Cons.prems show ?thesis by simp
  next
    case False
    with Cons.prems obtain k where k: "findIndex P xs = Some k" "i = Suc k" by auto
    from Cons.IH [OF k(1)] False k(2) show ?thesis
      by (auto simp: nth_Cons split: nat.splits)
  qed
qed

lemma find_None: "find P xs = None \<longleftrightarrow> (\<forall>x\<in>set xs. \<not> P x)"
  by (auto simp: find_None_iff)

lemma distinct_map_insort_key:
  "distinct (map g (insort_key f x xs)) \<longleftrightarrow> g x \<notin> g ` set xs \<and> distinct (map g xs)"
  by (induction xs) (auto simp: set_insort_key)

lemma distinct_map_sort_key: "distinct (map g (sort_key f xs)) \<longleftrightarrow> distinct (map g xs)"
  by (induction xs) (auto simp: distinct_map_insort_key)

lemma distinct_map_take: "distinct (map g xs) \<Longrightarrow> distinct (map g (take n xs))"
  by (metis distinct_take take_map)

lemma sorted_map_take: "sorted (map f xs) \<Longrightarrow> sorted (map f (take n xs))"
  by (metis sorted_wrt_take take_map)

lemma map_update_same_key:
  "i < length xs \<Longrightarrow> g r = g (xs ! i) \<Longrightarrow> map g (xs[i := r]) = map g xs"
  by (simp add: map_update list_update_same_conv)

text \<open>The four ways the accept path ends.\<close>

lemma acceptScore_cases:
  assumes "acceptScore now remaining d kv c u t g = (resp, kv', c')"
  obtains
    (error) "readTier kv d = None" "resp = createErrorResponse ''SERVER_ERROR'' 500" "kv' = kv" "c' = c"
  | (duplicate) lb where "readTier kv d = Some lb" "\<exists>r\<in>set lb. sr_gameId r = gd_gameId g"
      "resp = createErrorResponse ''DUPLICATE_GAME'' 400" "kv' = kv" "c' = c"
  | (not_improved) lb i where "readTier kv d = Some lb" "\<forall>r\<in>set lb. sr_gameId r \<noteq> gd_gameId g"
      "findIndex (\<lambda>r. sr_username r = u) lb = Some i"
      "\<not> num_less (parseIntValue t) (toNumber (sr_time (lb ! i)))"
      "status resp = 200" "kv' = kv" "c' = c"
      "\<exists>sub. body resp = Success (map jsonRecord (take 20 lb)) sub None
          \<and> sub_improved sub = Some False
          \<and> sub_currentBest sub = Some (jsonValue (sr_time (lb ! i)))"
  | (written) lb updated sub where "readTier kv d = Some lb" "\<forall>r\<in>set lb. sr_gameId r \<noteq> gd_gameId g"
      "(\<exists>i. findIndex (\<lambda>r. sr_username r = u) lb = Some i
            \<and> num_less (parseIntValue t) (toNumber (sr_time (lb ! i)))
            \<and> updated = lb[i := \<lparr> sr_username = u, sr_time = JNum (parseIntValue t),
                 sr_timestamp = now, sr_gameId = gd_gameId g, sr_moves = gd_moves g,
                 sr_verified = True \<rparr>])
       \<or> (findIndex (\<lambda>r. sr_username r = u) lb = None
            \<and> updated = lb @ [\<lparr> sr_username = u, sr_time = JNum (parseIntValue t),
                 sr_timestamp = now, sr_gameId = gd_gameId g, sr_moves = gd_moves g,
                 sr_verified = True \<rparr>])"
      "resp = \<lparr> status = 200,
                body = Success (map jsonRecord (take 20 (sortByTime updated))) sub (Some remaining) \<rparr>"
      "kv' = kv(''leaderboard:'' @ difficulty_name d
                  \<mapsto> Doc (JTier (map jsonRecord (take 20 (sortByTime updated)))))"
      "c' = cache_delete (cache_delete (cache_delete c (createCacheKey [''leaderboard'', difficulty_name d]))
             (createCacheKey [''kv'', ''leaderboard:'' @ difficulty_name d]))
             (createCacheKey [''kv'', ''leaderboard:'' @ difficulty_name d])"
  using assms
  unfolding acceptScore_def Let_def
  by (auto simp: find_None_iff split: option.splits if_splits sum.splits)

lemma updated_distinct:
  assumes "distinct (map sr_username lb)"
    and "(\<exists>i. findIndex (\<lambda>r. sr_username r = u) lb = Some i \<and> updated = lb[i := rec])
       \<or> (findIndex (\<lambda>r. sr_username r = u) lb = None \<and> updated = lb @ [rec])"
    and "sr_username rec = u"
  shows "distinct (map sr_username updated)"
  using assms(2)
proof (elim disjE exE conjE)
  fix i assume i: "findIndex (\<lambda>r. sr_username r = u) lb = Some i" and u: "updated = lb[i := rec]"
  from findIndex_Some [OF i] have "i < length lb" "sr_username (lb ! i) = u" by auto
  with assms(1,3) u show ?thesis by (simp add: map_update_same_key)
next
  assume n: "findIndex (\<lambda>r. sr_username r = u) lb = None" and u: "updated = lb @ [rec]"
  from n have "u \<notin> sr_username ` set lb" by (auto simp: findIndex_None)
  with assms(1,3) u show ?thesis by simp
qed

text \<open>Writing a record as JSON keeps its name, and its time when that is finite.\<close>

lemma jsonRecord_username: "map sr_username (map jsonRecord xs) = map sr_username xs"
  by (simp add: jsonRecord_def)

lemma jsonRecord_timeKey:
  "list_all finiteTime xs \<Longrightarrow> map timeKey (map jsonRecord xs) = map timeKey xs"
proof (induction xs)
  case Nil
  then show ?case by simp
next
  case (Cons r xs)
  from Cons.prems have "finiteTime r" by simp
  then have "timeKey (jsonRecord r) = timeKey r"
    by (cases "sr_time r" rule: jsonValue.cases)
      (auto simp: timeKey_def finiteTime_def jsonRecord_def)
  with Cons show ?case by simp
qed

text \<open>
  When every time involved is a finite number, what the accept path stores is sorted by
  time, has at most 20 records, and keeps the user names distinct.
\<close>

lemma written_tier_finite:
  assumes "list_all finiteTime updated"
  shows "length (map jsonRecord (take 20 (sortByTime updated))) \<le> 20"
    and "sorted (map timeKey (map jsonRecord (take 20 (sortByTime updated))))"
    and "distinct (map sr_username updated) \<Longrightarrow>
         distinct (map sr_username (map jsonRecord (take 20 (sortByTime updated))))"
proof -
  from assms have s: "sortByTime updated = sort_key timeKey updated"
    by (simp add: sortByTime_def)
  have f: "list_all finiteTime (take 20 (sort_key timeKey updated))"
    using assms by (auto simp: list_all_iff dest: in_set_takeD)
  show "length (map jsonRecord (take 20 (sortByTime updated))) \<le> 20" by simp
  show "sorted (map timeKey (map jsonRecord (take 20 (sortByTime updated))))"
    unfolding s jsonRecord_timeKey [OF f] by (rule sorted_map_take) simp
  show "distinct (map sr_username updated) \<Longrightarrow>
      distinct (map sr_username (map jsonRecord (take 20 (sortByTime updated))))"
    unfolding s jsonRecord_username
    by (simp add: distinct_map_take distinct_map_sort_key)
qed

lemma userKey_not_tierKey:
  "createKey ''security'' parts \<noteq> ''leaderboard:'' @ name"
  by (simp add: createKey_def)

lemma analyzeUserBehavior_kv:
  assumes "analyzeUserBehavior now kv c u t d = (res, kv1, c1)"
  shows "kv1 = kv \<or> (\<exists>st. res = NotSuspicious st True \<and>
           kv1 = kv(createKey ''security'' [''user_stats'', u, difficulty_name d]
                      \<mapsto> Doc (JStats (jsonStats st))))"
proof -
  obtain loaded c0 where
    g: "safeGet True now kv c (createKey ''security'' [''user_stats'', u, difficulty_name d])
          (JStats defaultStats) None = (loaded, c0)"
    by (cases "safeGet True now kv c (createKey ''security'' [''user_stats'', u, difficulty_name d])
          (JStats defaultStats) None")
  show ?thesis
  proof (cases loaded)
    case (JTier l)
    with assms g show ?thesis by (simp add: analyzeUserBehavior_def)
  next
    case (JStats st)
    with assms g show ?thesis
      by (auto simp add: analyzeUserBehavior_def safePut_def Let_def split: if_splits)
  qed
qed

lemma analyzeUserBehavior_tier:
  assumes "analyzeUserBehavior now kv c u t d = (res, kv1, c1)"
  shows "kv1 (''leaderboard:'' @ name) = kv (''leaderboard:'' @ name)"
  using analyzeUserBehavior_kv [OF assms]
  by (auto simp: createKey_def)

lemma analyzeUserBehavior_block:
  assumes "analyzeUserBehavior now kv c u t d = (TemporaryBlock, kv1, c1)"
  shows "kv1 = kv"
  using analyzeUserBehavior_kv [OF assms] by auto

lemma handlePost_cases:
  assumes "handlePost now remaining d kv c req = (resp, kv', c')"
  obtains
    (rejected) code where "resp = createErrorResponse code 400" "kv' = kv" "c' = c"
  | (blocked) u t g where
      "validateUsername (pb_username req) = Inr u" "pb_gameData req = Some g"
      "validateTime (pb_time req) = Inr t"
      "validateScoreReasonableness now (pb_time req) d (Some g) = Inr ()"
      "analyzeUserBehavior now kv c (case pb_username req of Some x \<Rightarrow> x | None \<Rightarrow> []) (pb_time req) d
         = (TemporaryBlock, kv', c')"
      "resp = createErrorResponse ''SUSPICIOUS_BEHAVIOR'' 429"
  | (accept) u t g res kv1 c1 where
      "validateUsername (pb_username req) = Inr u" "pb_gameData req = Some g"
      "validateTime (pb_time req) = Inr t"
      "validateScoreReasonableness now (pb_time req) d (Some g) = Inr ()"
      "analyzeUserBehavior now kv c (case pb_username req of Some x \<Rightarrow> x | None \<Rightarrow> []) (pb_time req) d
         = (res, kv1, c1)"
      "res \<noteq> TemporaryBlock"
      "acceptScore now remaining d kv1 c1 u (pb_time req) g = (resp, kv', c')"
  using assms
  unfolding handlePost_def Let_def
  by (auto split: option.splits sum.splits prod.splits behavior_result.splits)

lemma handlePost_accept:
  assumes "handlePost now remaining d kv c req = (resp, kv', c')"
    and "body resp = Success top20 sub rem"
  obtains kv1 c1 u t g where
    "acceptScore now remaining d kv1 c1 u t g = (resp, kv', c')"
    "kv1 (''leaderboard:'' @ difficulty_name d) = kv (''leaderboard:'' @ difficulty_name d)"
  using assms(1)
proof (cases rule: handlePost_cases)
  case (rejected code)
  with assms(2) show ?thesis by (simp add: createErrorResponse_def)
next
  case (blocked u t g)
  with assms(2) show ?thesis by (simp add: createErrorResponse_def)
next
  case (accept u t g res kv1 c1)
  from analyzeUserBehavior_tier [OF accept(5)] accept(7) that show ?thesis by blast
qed


section \<open>The accept path\<close>




text \<open>
  What decides the replacement is \<open>parseInt(time)\<close>: for a claim that has passed the
  duplicate guard and whose user holds a record at index \<open>i\<close>, the tier is written back
  with that record replaced exactly when \<open>parseInt(time)\<close> is a number below the stored
  time; otherwise nothing is written and the response is 200 with \<open>improved: false\<close>.
\<close>

lemma replace_iff_parsed_lower:
  assumes "readTier kv d = Some lb"
    and "\<forall>r\<in>set lb. sr_gameId r \<noteq> gd_gameId g"
    and "findIndex (\<lambda>r. sr_username r = u) lb = Some i"
    and "acceptScore now remaining d kv c u t g = (resp, kv', c')"
  shows "(num_less (parseIntValue t) (toNumber (sr_time (lb ! i))) \<longrightarrow>
            kv' (''leaderboard:'' @ difficulty_name d)
              = Some (Doc (JTier (map jsonRecord (take 20 (sortByTime
                  (lb[i := \<lparr> sr_username = u, sr_time = JNum (parseIntValue t),
                     sr_timestamp = now, sr_gameId = gd_gameId g, sr_moves = gd_moves g,
                     sr_verified = True \<rparr>]))))))
            \<and> status resp = 200)
       \<and> (\<not> num_less (parseIntValue t) (toNumber (sr_time (lb ! i))) \<longrightarrow>
            kv' = kv \<and> c' = c \<and> status resp = 200
            \<and> (\<exists>sub. body resp = Success (map jsonRecord (take 20 lb)) sub None
                  \<and> sub_improved sub = Some False
                  \<and> sub_currentBest sub = Some (jsonValue (sr_time (lb ! i)))))"
  using assms(4)
proof (cases rule: acceptScore_cases)
  case error
  with assms(1) show ?thesis by simp
next
  case (duplicate lb')
  with assms(1,2) show ?thesis by auto
next
  case (not_improved lb' j)
  with assms(1,3) show ?thesis by auto
next
  case (written lb' updated sub)
  with assms(1,3) show ?thesis by auto
qed

text \<open>
  Claim C1. The time that is validated is \<open>Number(time)\<close>, the time that is compared and
  stored is \<open>parseInt(time)\<close>, and the two differ on texts. Alice holds 50 seconds. Her
  claim \<open>"1e2"\<close> is validated as 100 seconds, which is not lower, yet her record is
  replaced (by one of 1 second). Her claim \<open>".5e1"\<close> is validated as 5 seconds, which
  is strictly lower, yet it is answered \<open>improved: false\<close> and her record of 50 stays.
\<close>

theorem parsed_time_decides_replacement:
  "validateTime (JStr ''1e2'') = Inr 100
   \<and> fst (snd alice_posts_1e2) ''leaderboard:beginner'' = Some (Doc (JTier [alice1]))
   \<and> validateTime (JStr ''.5e1'') = Inr 5
   \<and> fst alice_posts_5e1
       = \<lparr> status = 200, body = Success [alice50]
             \<lparr> sub_username = ''alice'', sub_time = JNull, sub_difficulty = Beginner,
               sub_improved = Some False, sub_currentBest = Some (JNum (Finite 50)),
               sub_rank = Some 1 \<rparr> None \<rparr>
   \<and> fst (snd alice_posts_5e1) ''leaderboard:beginner'' = Some (Doc (JTier [alice50]))"
  by code_simp

theorem parsed_time_decides_replacement_witness:
  "fst (snd alice_posts_1e2) ''leaderboard:beginner'' \<noteq> Some (Doc (JTier [alice50]))
   \<and> fst (snd alice_posts_5e1) ''leaderboard:beginner'' = Some (Doc (JTier [alice50]))"
  using parsed_time_decides_replacement by (simp add: alice1_def alice50_def)

text \<open>
  When the tier read holds finite times only and \<open>parseInt(time)\<close> is a number, the tier
  the accept path writes has at most 20 records, is sorted by time, and keeps one record
  per user name if the tier read did.
\<close>

lemma tier_invariant_finite:
  assumes "acceptScore now remaining d kv c u t g = (resp, kv', c')"
    and "body resp = Success top20 sub (Some r)"
    and "readTier kv d = Some lb" and "list_all finiteTime lb"
    and "parseIntValue t = Finite q"
  shows "kv' (''leaderboard:'' @ difficulty_name d) = Some (Doc (JTier top20))
     \<and> length top20 \<le> 20
     \<and> sorted (map timeKey top20)
     \<and> (distinct (map sr_username lb) \<longrightarrow> distinct (map sr_username top20))"
  using assms(1)
proof (cases rule: acceptScore_cases)
  case error
  with assms(2) show ?thesis by (simp add: createErrorResponse_def)
next
  case (duplicate lb')
  with assms(2) show ?thesis by (simp add: createErrorResponse_def)
next
  case (not_improved lb' i)
  with assms(2) show ?thesis by auto
next
  case (written lb' updated sub')
  let ?rec = "\<lparr> sr_username = u, sr_time = JNum (parseIntValue t), sr_timestamp = now,
      sr_gameId = gd_gameId g, sr_moves = gd_moves g, sr_verified = True \<rparr>"
  from written(4) assms(2) have top: "top20 = map jsonRecord (take 20 (sortByTime updated))"
    by simp
  from written(1) assms(3) have lb: "lb' = lb" by simp
  have rec: "finiteTime ?rec" using assms(5) by (simp add: finiteTime_def)
  from written(3) have "set updated \<subseteq> insert ?rec (set lb)"
    unfolding lb by (auto dest: set_update_subset_insert [THEN subsetD])
  with rec assms(4) have fin: "list_all finiteTime updated"
    by (auto simp: list_all_iff)
  have "distinct (map sr_username lb) \<Longrightarrow> distinct (map sr_username updated)"
    by (rule updated_distinct [where u = u and rec = ?rec]) (use written(3) lb in auto)
  with written(5) top written_tier_finite [OF fin] show ?thesis
    by simp
qed

text \<open>
  Claim C2. A new user bob submits the time \<open>".5e1"\<close> against the tier in which alice
  holds 50 seconds. Every validator passes (the claim is 5 seconds), \<open>parseInt\<close> gives
  NaN, the comparator of the sort gives NaN and leaves the order, and the tier is stored
  as alice with 50 followed by bob with \<open>null\<close>: the second time is below the first.
\<close>

theorem unparsed_time_breaks_order:
  "validateTime (JStr ''.5e1'') = Inr 5
   \<and> status (fst bob_posts_5e1) = 200
   \<and> fst (snd bob_posts_5e1) ''leaderboard:beginner'' = Some (Doc (JTier [alice50, bob_null]))
   \<and> num_less (toNumber (sr_time bob_null)) (toNumber (sr_time alice50))"
  by code_simp

theorem unparsed_time_breaks_order_witness:
  "fst (snd bob_posts_5e1) ''leaderboard:beginner'' = Some (Doc (JTier [alice50, bob_null]))
   \<and> \<not> sorted (map timeKey [alice50, bob_null])"
  using unparsed_time_breaks_order by (simp add: timeKey_def alice50_def bob_null_def)




text \<open>
  Claim C8. Whenever a POST request ends in the accept-path write, the tier is stored
  and the global cache that the request leaves behind holds no entry under
  \<open>leaderboard:<difficulty>\<close> and none under \<open>kv:leaderboard:<difficulty>\<close>.
\<close>

theorem cache_invalidated_after_write:
  assumes "handlePost now remaining d kv c req = (resp, kv', c')"
    and "body resp = Success top20 sub (Some r)"
  shows "kv' (''leaderboard:'' @ difficulty_name d) = Some (Doc (JTier top20))
     \<and> map_of (cache c') (''leaderboard:'' @ difficulty_name d) = None
     \<and> map_of (cache c') (''kv:leaderboard:'' @ difficulty_name d) = None"
proof -
  from assms obtain kv1 c1 u t g where
    a: "acceptScore now remaining d kv1 c1 u t g = (resp, kv', c')"
    by (rule handlePost_accept)
  from a show ?thesis
  proof (cases rule: acceptScore_cases)
    case (written lb updated sub')
    with assms(2) show ?thesis
      by (simp add: cache_delete_def createCacheKey_def delete_conv)
  qed (use assms(2) in \<open>auto simp: createErrorResponse_def\<close>)
qed

theorem cache_invalidated_after_write_witness:
  "map_of (cache warm_cache) ''leaderboard:beginner'' \<noteq> None
   \<and> map_of (cache warm_cache) ''kv:leaderboard:beginner'' \<noteq> None
   \<and> fst (snd warm_submission) ''leaderboard:beginner'' = Some (Doc (JTier [alice40]))
   \<and> map_of (cache (snd (snd warm_submission))) ''leaderboard:beginner'' = None
   \<and> map_of (cache (snd (snd warm_submission))) ''kv:leaderboard:beginner'' = None"
proof -
  let ?sub = "\<lparr> sub_username = ''alice'', sub_time = JNum (Finite 40), sub_difficulty = Beginner,
      sub_improved = None, sub_currentBest = None, sub_rank = Some 1 \<rparr>"
  have run: "handlePost 1060000 13 Beginner kv_alice warm_cache
      \<lparr> pb_username = Some ''alice'', pb_time = JNum (Finite 40), pb_gameData = Some beginner_game \<rparr>
    = (fst warm_submission, fst (snd warm_submission), snd (snd warm_submission))"
    by (simp add: warm_submission_def)
  have written: "body (fst warm_submission) = Success [alice40] ?sub (Some 13)"
    by code_simp
  have before: "map_of (cache warm_cache) ''leaderboard:beginner'' \<noteq> None
      \<and> map_of (cache warm_cache) ''kv:leaderboard:beginner'' \<noteq> None"
    by (simp add: warm_cache_def)
  from cache_invalidated_after_write [OF run written] before show ?thesis
    by simp
qed

section \<open>The behavior analyzer\<close>

text \<open>
  Claim C7. Let \<open>st\<close> be the statistics \<open>analyzeUserBehavior\<close> loads for a user and a
  difficulty, and call the last submission recent when it is less than 300 seconds old.
  If it is recent and the incremented suspicion counter exceeds 3, the verdict is the
  temporary block, the store is left as it was (so the stored best time is not updated),
  and a POST request that reaches the analyzer is answered with 429
  \<open>SUSPICIOUS_BEHAVIOR\<close> without any write. If it is recent and the incremented counter
  is at most 3, the statistics are stored with the counter incremented. If it is not
  recent, they are stored with the counter decremented, but not below zero.
\<close>

theorem behavior_cooldown:
  assumes loaded: "safeGet True now kv c (createKey ''security'' [''user_stats'', u, difficulty_name d])
            (JStats defaultStats) None = (JStats st, c0)"
    and recent: "recent \<longleftrightarrow> (\<exists>lastMs. lastSubmission st = Some lastMs
                        \<and> of_int (now - lastMs) / 1000 < (300 :: rat))"
  shows "(recent \<and> suspiciousCount st + 1 > 3 \<longrightarrow>
            analyzeUserBehavior now kv c u t d
              = (TemporaryBlock, kv,
                 mutate_cached c0
                   (createCacheKey [''kv'', createKey ''security'' [''user_stats'', u, difficulty_name d]])
                   (JStats (st\<lparr>suspiciousCount := suspiciousCount st + 1\<rparr>)))
            \<and> (\<forall>remaining req trimmed g q.
                  pb_username req = Some u \<and> pb_time req = t \<and> pb_gameData req = Some g
                  \<and> validateUsername (Some u) = Inr trimmed
                  \<and> validateTime t = Inr q
                  \<and> validateScoreReasonableness now t d (Some g) = Inr ()
                  \<longrightarrow> fst (handlePost now remaining d kv c req)
                        = createErrorResponse ''SUSPICIOUS_BEHAVIOR'' 429
                      \<and> fst (snd (handlePost now remaining d kv c req)) = kv))
     \<and> (recent \<and> suspiciousCount st + 1 \<le> 3 \<longrightarrow>
            (\<exists>st' c'. analyzeUserBehavior now kv c u t d
                 = (NotSuspicious st' True,
                    kv(createKey ''security'' [''user_stats'', u, difficulty_name d]
                         \<mapsto> Doc (JStats (jsonStats st'))),
                    c')
               \<and> suspiciousCount st' = suspiciousCount st + 1))
     \<and> (\<not> recent \<longrightarrow>
            (\<exists>st' c'. analyzeUserBehavior now kv c u t d
                 = (NotSuspicious st' True,
                    kv(createKey ''security'' [''user_stats'', u, difficulty_name d]
                         \<mapsto> Doc (JStats (jsonStats st'))),
                    c')
               \<and> suspiciousCount st' = max 0 (suspiciousCount st - 1)))"
proof (intro conjI impI)
  assume h: "recent \<and> suspiciousCount st + 1 > 3"
  with recent obtain lastMs where l: "lastSubmission st = Some lastMs"
    "of_int (now - lastMs) / 1000 < (300 :: rat)" by blast
  with h loaded show blk: "analyzeUserBehavior now kv c u t d
      = (TemporaryBlock, kv,
         mutate_cached c0
           (createCacheKey [''kv'', createKey ''security'' [''user_stats'', u, difficulty_name d]])
           (JStats (st\<lparr>suspiciousCount := suspiciousCount st + 1\<rparr>)))"
    by (simp add: analyzeUserBehavior_def Let_def)
  show "\<forall>remaining req trimmed g q.
      pb_username req = Some u \<and> pb_time req = t \<and> pb_gameData req = Some g
      \<and> validateUsername (Some u) = Inr trimmed
      \<and> validateTime t = Inr q
      \<and> validateScoreReasonableness now t d (Some g) = Inr ()
      \<longrightarrow> fst (handlePost now remaining d kv c req)
            = createErrorResponse ''SUSPICIOUS_BEHAVIOR'' 429
          \<and> fst (snd (handlePost now remaining d kv c req)) = kv"
    using blk by (simp add: handlePost_def)
next
  assume h: "recent \<and> suspiciousCount st + 1 \<le> 3"
  with recent obtain lastMs where l: "lastSubmission st = Some lastMs"
    "of_int (now - lastMs) / 1000 < (300 :: rat)" by blast
  with h loaded show "\<exists>st' c'. analyzeUserBehavior now kv c u t d
       = (NotSuspicious st' True,
          kv(createKey ''security'' [''user_stats'', u, difficulty_name d]
                         \<mapsto> Doc (JStats (jsonStats st'))),
          c')
     \<and> suspiciousCount st' = suspiciousCount st + 1"
    by (simp add: analyzeUserBehavior_def Let_def safePut_def)
next
  assume h: "\<not> recent"
  with recent have "(case lastSubmission st of None \<Rightarrow> False
       | Some lastMs \<Rightarrow> of_int (now - lastMs) / 1000 < (300 :: rat)) = False"
    by (auto split: option.splits)
  with loaded show "\<exists>st' c'. analyzeUserBehavior now kv c u t d
       = (NotSuspicious st' True,
          kv(createKey ''security'' [''user_stats'', u, difficulty_name d]
                         \<mapsto> Doc (JStats (jsonStats st'))),
          c')
     \<and> suspiciousCount st' = max 0 (suspiciousCount st - 1)"
    by (simp add: analyzeUserBehavior_def Let_def safePut_def)
qed

theorem behavior_cooldown_witness:
  "fst (handlePost 1060000 13 Beginner kv_busy globalCache0 alice_posts_40)
     = createErrorResponse ''SUSPICIOUS_BEHAVIOR'' 429
   \<and> fst (snd (handlePost 1060000 13 Beginner kv_busy globalCache0 alice_posts_40)) = kv_busy
   \<and> (\<exists>st' c'. analyzeUserBehavior 2000000 kv_busy globalCache0 ''alice'' (JNum (Finite 40)) Beginner
          = (NotSuspicious st' True,
             kv_busy(createKey ''security'' [''user_stats'', ''alice'', difficulty_name Beginner]
               \<mapsto> Doc (JStats (jsonStats st'))), c')
        \<and> suspiciousCount st' = 2)"
proof -
  let ?key = "createKey ''security'' [''user_stats'', ''alice'', difficulty_name Beginner]"
  let ?soon = "safeGet True 1060000 kv_busy globalCache0 ?key (JStats defaultStats) None"
  let ?late = "safeGet True 2000000 kv_busy globalCache0 ?key (JStats defaultStats) None"
  have "fst ?soon = JStats busy_stats" by code_simp
  then have soon: "?soon = (JStats busy_stats, snd ?soon)"
    by (metis prod.collapse)
  have "fst ?late = JStats busy_stats" by code_simp
  then have late: "?late = (JStats busy_stats, snd ?late)"
    by (metis prod.collapse)
  have recent: "True \<longleftrightarrow> (\<exists>lastMs. lastSubmission busy_stats = Some lastMs
      \<and> of_int (1060000 - lastMs) / 1000 < (300 :: rat))"
    by (simp add: busy_stats_def)
  have not_recent: "False \<longleftrightarrow> (\<exists>lastMs. lastSubmission busy_stats = Some lastMs
      \<and> of_int (2000000 - lastMs) / 1000 < (300 :: rat))"
    by (simp add: busy_stats_def)
  have count: "suspiciousCount busy_stats = 3"
    by (simp add: busy_stats_def)
  have req: "pb_username alice_posts_40 = Some ''alice'' \<and> pb_time alice_posts_40 = JNum (Finite 40)
      \<and> pb_gameData alice_posts_40 = Some beginner_game"
    by (simp add: alice_posts_40_def)
  have name: "validateUsername (Some ''alice'') = Inr ''alice''" by code_simp
  have time: "validateTime (JNum (Finite 40)) = Inr 40" by (simp add: validateTime_def)
  have score: "validateScoreReasonableness 1060000 (JNum (Finite 40)) Beginner
      (Some beginner_game) = Inr ()"
    by code_simp
  from behavior_cooldown [OF soon recent, of "JNum (Finite 40)"] count req name time score
  have 1: "fst (handlePost 1060000 13 Beginner kv_busy globalCache0 alice_posts_40)
       = createErrorResponse ''SUSPICIOUS_BEHAVIOR'' 429
     \<and> fst (snd (handlePost 1060000 13 Beginner kv_busy globalCache0 alice_posts_40)) = kv_busy"
    by simp
  from behavior_cooldown [OF late not_recent, of "JNum (Finite 40)"] count
  have 2: "\<exists>st' c'. analyzeUserBehavior 2000000 kv_busy globalCache0 ''alice'' (JNum (Finite 40)) Beginner
          = (NotSuspicious st' True, kv_busy(?key \<mapsto> Doc (JStats (jsonStats st'))), c')
        \<and> suspiciousCount st' = 2"
    by simp
  from 1 2 show ?thesis by blast
qed

section \<open>The store adapter's read\<close>

text \<open>
  What \<open>safeGet\<close> does on a cache miss, by what the store holds: an absent key and a text
  that does not parse give the default and leave the cache entries alone, a document is
  returned and cached, and the empty string gives the default and caches it.
\<close>

lemma safeGet_on_miss:
  assumes "cache_get now c (createCacheKey [''kv'', key]) = (None, c1)"
  shows "kv key = None \<Longrightarrow> safeGet True now kv c key dflt ttl = (dflt, c1)"
    and "kv key = Some BadText \<Longrightarrow> safeGet True now kv c key dflt ttl = (dflt, c1)"
    and "kv key = Some (Doc v) \<Longrightarrow> safeGet True now kv c key dflt ttl
           = (v, cache_set now c1 (createCacheKey [''kv'', key]) v ttl)"
    and "kv key = Some EmptyText \<Longrightarrow> safeGet True now kv c key dflt ttl
           = (dflt, cache_set now c1 (createCacheKey [''kv'', key]) dflt ttl)"
  using assms by (simp_all add: safeGet_def)

text \<open>A miss never adds an entry by itself: it can only drop the expired one it found.\<close>

lemma cache_get_miss_entries:
  assumes "cache_get now c k = (None, c1)"
  shows "map_of (cache c1) k = None"
  using assms
  by (auto simp: cache_get_def delete_conv split: option.splits if_splits)

text \<open>
  Claim C9. With the empty string stored under \<open>leaderboard:beginner\<close> and an empty
  cache, \<open>safeGet\<close> with the default \<open>[]\<close> resolves to the default (the text is falsy)
  and, because the text is not \<open>null\<close>, writes that default into the cache under
  \<open>kv:leaderboard:beginner\<close>. With the key absent the same call caches nothing.
\<close>

theorem default_cached_for_empty_text:
  "fst (safeGet True 1000 kv_empty_text globalCache0 ''leaderboard:beginner'' (JTier []) (Some 30000))
     = JTier []
   \<and> map_of (cache globalCache0) ''kv:leaderboard:beginner'' = None
   \<and> map_of (cache (snd (safeGet True 1000 kv_empty_text globalCache0 ''leaderboard:beginner''
          (JTier []) (Some 30000)))) ''kv:leaderboard:beginner''
     = Some \<lparr> data = JTier [], expiry = 31000, created = 1000, lastAccessed = 1000 \<rparr>
   \<and> map_of (cache (snd (safeGet True 1000 Map.empty globalCache0 ''leaderboard:beginner''
          (JTier []) (Some 30000)))) ''kv:leaderboard:beginner''
     = None"
  by (simp add: safeGet_def cache_get_def cache_set_def createCacheKey_def globalCache0_def
      kv_empty_text_def)

theorem default_cached_for_empty_text_witness:
  "map_of (cache (snd (safeGet True 1000 kv_empty_text globalCache0 ''leaderboard:beginner''
          (JTier []) (Some 30000)))) ''kv:leaderboard:beginner''
     \<noteq> map_of (cache (snd (safeGet True 1000 Map.empty globalCache0 ''leaderboard:beginner''
          (JTier []) (Some 30000)))) ''kv:leaderboard:beginner''"
  using default_cached_for_empty_text by simp

section \<open>Decimal texts are read back as written\<close>

lemma digitChar_decimal: "dgt < 10 \<Longrightarrow> decimalChar (digitChar dgt)"
proof -
  assume "dgt < 10"
  then have "dgt \<in> {0, 1, 2, 3, 4, 5, 6, 7, 8, 9}" by auto
  then show ?thesis by (auto simp: digitChar_def decimalChar_def)
qed

lemma digitVal_digitChar: "dgt < 10 \<Longrightarrow> digitVal 10 (digitChar dgt) = Some dgt"
proof -
  assume "dgt < 10"
  then have "dgt \<in> {0, 1, 2, 3, 4, 5, 6, 7, 8, 9}" by auto
  then show ?thesis by (auto simp: digitChar_def digitVal_def)
qed

lemma digitRun_append:
  "\<forall>ch\<in>set s. digitVal radix ch \<noteq> None \<Longrightarrow>
   digitRun radix (s @ t) = map (\<lambda>ch. the (digitVal radix ch)) s @ digitRun radix t"
  by (induction s) (auto split: option.splits)

lemma digitRun_all:
  "\<forall>ch\<in>set s. digitVal radix ch \<noteq> None \<Longrightarrow>
   digitRun radix s = map (\<lambda>ch. the (digitVal radix ch)) s"
  using digitRun_append [of s radix "[]"] by simp

lemma toString10_chars: "\<forall>ch\<in>set (toString10 n). decimalChar ch"
proof (induction n rule: toString10.induct)
  case (1 n)
  show ?case
  proof (cases "n < 10")
    case True
    then show ?thesis by (subst toString10.simps) (simp add: digitChar_decimal)
  next
    case False
    with 1 show ?thesis by (subst toString10.simps) (simp add: digitChar_decimal)
  qed
qed

lemma toString10_nonempty: "toString10 n \<noteq> []"
  by (subst toString10.simps) simp

lemma decimalChar_digitVal: "decimalChar ch \<Longrightarrow> digitVal 10 ch \<noteq> None"
  by (auto simp: decimalChar_def digitVal_def)

lemma toString10_value:
  "foldl (\<lambda>acc dgt. acc * 10 + dgt) 0 (digitRun 10 (toString10 n)) = n"
proof (induction n rule: toString10.induct)
  case (1 n)
  show ?case
  proof (cases "n < 10")
    case True
    then show ?thesis by (subst toString10.simps) (simp add: digitVal_digitChar)
  next
    case False
    have run: "digitRun 10 (toString10 (n div 10) @ [digitChar (n mod 10)])
        = digitRun 10 (toString10 (n div 10)) @ [n mod 10]"
      using toString10_chars [of "n div 10"]
      by (simp add: digitRun_append digitRun_all decimalChar_digitVal digitVal_digitChar)
    from False 1 run show ?thesis by (subst toString10.simps) simp
  qed
qed


lemma decimalChar_plain:
  "decimalChar ch \<Longrightarrow> \<not> isSpace ch \<and> ch \<noteq> CHR ''-'' \<and> ch \<noteq> CHR ''+''
     \<and> ch \<noteq> CHR ''x'' \<and> ch \<noteq> CHR ''X''"
  by (auto simp: decimalChar_def isSpace_def)

lemma decimal_text_shape:
  assumes "s \<noteq> []" and "\<forall>ch\<in>set s. decimalChar ch"
  shows "dropWhile isSpace s = s"
    and "(case s of
            ch # rest \<Rightarrow> if ch = CHR ''-'' then (- 1 :: int, rest)
                         else if ch = CHR ''+'' then (1, rest)
                         else (1, s)
          | [] \<Rightarrow> (1, s)) = (1, s)"
    and "(case s of
            z # x # rest \<Rightarrow> if z = CHR ''0'' \<and> (x = CHR ''x'' \<or> x = CHR ''X'')
                            then (16 :: nat, rest) else (10, s)
          | _ \<Rightarrow> (10, s)) = (10, s)"
    and "digitRun 10 s \<noteq> []"
proof -
  from assms obtain ch rest where s: "s = ch # rest" by (cases s) auto
  with assms(2) have ch: "decimalChar ch" by simp
  from s decimalChar_plain [OF ch] show "dropWhile isSpace s = s" by simp
  from s decimalChar_plain [OF ch] show "(case s of
            ch # rest \<Rightarrow> if ch = CHR ''-'' then (- 1 :: int, rest)
                         else if ch = CHR ''+'' then (1, rest)
                         else (1, s)
          | [] \<Rightarrow> (1, s)) = (1, s)" by simp
  from assms(2) decimalChar_plain show "(case s of
            z # x # rest \<Rightarrow> if z = CHR ''0'' \<and> (x = CHR ''x'' \<or> x = CHR ''X'')
                            then (16 :: nat, rest) else (10, s)
          | _ \<Rightarrow> (10, s)) = (10, s)" by (auto split: list.splits)
  from s ch decimalChar_digitVal [of ch] show "digitRun 10 s \<noteq> []"
    by (auto split: option.splits)
qed

lemma parseInt_decimal:
  assumes "s \<noteq> []" and "\<forall>ch\<in>set s. decimalChar ch"
  shows "parseInt s = Some (int (foldl (\<lambda>acc dgt. acc * 10 + dgt) 0 (digitRun 10 s)))"
  unfolding parseInt_def Let_def decimal_text_shape(1-3) [OF assms] prod.case
  using decimal_text_shape(4) [OF assms] by simp

lemma parseInt_toString10: "parseInt (toString10 n) = Some (int n)"
  by (simp add: parseInt_decimal toString10_nonempty toString10_chars toString10_value)

lemma parseInt_minus:
  assumes "s \<noteq> []" and "\<forall>ch\<in>set s. decimalChar ch"
  shows "parseInt (CHR ''-'' # s) = Some (- int (foldl (\<lambda>acc dgt. acc * 10 + dgt) 0 (digitRun 10 s)))"
proof -
  have "dropWhile isSpace (CHR ''-'' # s) = CHR ''-'' # s"
    by (simp add: isSpace_def)
  then show ?thesis
    unfolding parseInt_def Let_def
    using decimal_text_shape(3,4) [OF assms] by simp
qed

lemma parseInt_numberToString: "parseInt (numberToString (Some n)) = Some n"
  by (simp add: numberToString_def parseInt_toString10 parseInt_minus toString10_nonempty
      toString10_chars toString10_value)

lemma readCount_written:
  "readCount (store(k \<mapsto> numberToString (Some n))) k = Some n"
proof -
  have "numberToString (Some n) \<noteq> []"
    by (simp add: numberToString_def toString10_nonempty)
  then show ?thesis by (simp add: readCount_def parseInt_numberToString)
qed

section \<open>Admin tokens\<close>

text \<open>
  For a token that decodes into two parts, the answer is \<open>token_expired\<close> exactly when
  \<open>parseInt\<close> reads a number from the timestamp part and that number lies outside the
  window from \<open>now - 300000\<close> to \<open>now\<close>.
\<close>

lemma token_expired_iff:
  assumes "tok_decoded token = Some decoded" and "split_colon decoded = [timestampStr, signature]"
  shows "fst (validateAdminToken now adminKey store token) = Inl token_expired
     \<longleftrightarrow> (\<exists>ts. parseInt timestampStr = Some ts \<and> (now - ts > 300000 \<or> now - ts < 0))"
  using assms
  by (auto simp: validateAdminToken_def Let_def split: option.splits)

lemma signature_abc: "generateTokenSignature ''abc'' adminKey32 = ''arj1ig''"
  by (simp add: generateTokenSignature_def hashString_def hashStep_def toInt32_def digitChar_def
      adminKey32_def toString36.simps)

text \<open>
  Claim C3. The timestamp part \<open>abc\<close> is not numeric: \<open>parseInt\<close> gives NaN, both
  comparisons of the age are false, and the token goes on to the signature check. With
  an arbitrary signature it is rejected as \<open>invalid_signature\<close>, not \<open>token_expired\<close>;
  signed with the key it is accepted, at any time.
\<close>

theorem non_numeric_timestamp_not_expired:
  "parseInt ''abc'' = None
   \<and> validateAdminToken 1700000100000 adminKey32 Map.empty token_abc_unsigned
       = (Inl invalid_signature, Map.empty)
   \<and> validateAdminToken 1700000100000 adminKey32 Map.empty token_abc_signed
       = (Inr (), Map.empty(''security:used_token:YWJjOmFyajFpZw=='' \<mapsto> ''used''))"
  by (simp add: validateAdminToken_def signature_abc parseInt_def isSpace_def digitVal_def
      secureCompare_def token_abc_signed_def token_abc_unsigned_def)

theorem non_numeric_timestamp_not_expired_witness:
  "fst (validateAdminToken 1700000100000 adminKey32 Map.empty token_abc_unsigned) \<noteq> Inl token_expired
   \<and> fst (validateAdminToken 1700000100000 adminKey32 Map.empty token_abc_signed) \<noteq> Inl token_expired"
  using non_numeric_timestamp_not_expired by simp

section \<open>The rate limiter\<close>

lemma find_overLimit:
  "(\<exists>check\<in>set checks. overLimit store check) \<longleftrightarrow> find (overLimit store) checks \<noteq> None"
  by (auto simp: find_None_iff)

text \<open>A counter reads back as the number, or the NaN, that was written.\<close>

lemma parseInt_NaN: "parseInt ''NaN'' = None"
  by (simp add: parseInt_def isSpace_def digitVal_def)

lemma readCount_upd:
  "readCount (store(k \<mapsto> numberToString x)) k'
     = (if k' = k then x else readCount store k')"
proof (cases x)
  case None
  then show ?thesis by (simp add: readCount_def numberToString_def parseInt_NaN)
next
  case (Some n)
  then show ?thesis by (simp add: readCount_written) (simp add: readCount_def)
qed

lemma minute_28333335: "numberToString (Some 28333335) = ''28333335''"
  by (simp add: numberToString_def toString10.simps digitChar_def)

text \<open>
  Claim C5, as the code has it. If one of the three scopes has its counter at or above
  its ceiling (20, 15, 1000), the request is refused with remaining 0 and the store is
  left as it was, so no counter is incremented. If no scope has, the request is allowed,
  each of the three counters reads one more afterwards than it read before, and
  remaining is \<open>15 - fingerprintCount - 1\<close> (a counter that reads as NaN stays NaN, and
  so does remaining).
\<close>

theorem rate_limit_decision:
  "((\<exists>check\<in>set (rateLimitConfig now req). overLimit store check) \<longrightarrow>
       rl_allowed (fst (checkRateLimit now req store)) = False
       \<and> rl_remaining (fst (checkRateLimit now req store)) = Some 0
       \<and> snd (checkRateLimit now req store) = store)
   \<and> ((\<forall>check\<in>set (rateLimitConfig now req). \<not> overLimit store check) \<longrightarrow>
       rl_allowed (fst (checkRateLimit now req store))
       \<and> (\<forall>check\<in>set (rateLimitConfig now req).
             readCount (snd (checkRateLimit now req store)) (''security:'' @ rc_key check)
               = map_option (\<lambda>count. count + 1)
                   (readCount store (''security:'' @ rc_key check)))
       \<and> rl_remaining (fst (checkRateLimit now req store))
           = map_option (\<lambda>fingerprintCount. 15 - fingerprintCount - 1)
               (readCount store (''security:rate_limit:fingerprint:''
                  @ generateClientFingerprint req
                  @ '':'' @ numberToString (Some (now div 60000)))))"
proof (intro conjI impI)
  assume "\<exists>check\<in>set (rateLimitConfig now req). overLimit store check"
  then obtain result where "find (overLimit store) (rateLimitConfig now req) = Some result"
    by (auto simp: find_overLimit)
  then have "checkRateLimit now req store
      = (\<lparr> rl_allowed = False, rl_remaining = Some 0, rl_reason = Some SystemBusy \<rparr>, store)"
    by (simp add: checkRateLimit_def checkRateLimit_body_def logSecurityEvent_def)
  then show "rl_allowed (fst (checkRateLimit now req store)) = False"
    and "rl_remaining (fst (checkRateLimit now req store)) = Some 0"
    and "snd (checkRateLimit now req store) = store"
    by simp_all
next
  assume "\<forall>check\<in>set (rateLimitConfig now req). \<not> overLimit store check"
  then have none: "find (overLimit store) (rateLimitConfig now req) = None"
    by (simp add: find_None_iff)
  let ?minute = "numberToString (Some (now div 60000))"
  let ?kip = "''security:rate_limit:ip:''
      @ (case cf_connecting_ip req of None \<Rightarrow> ''null'' | Some a \<Rightarrow> a) @ '':'' @ ?minute"
  let ?kfp = "''security:rate_limit:fingerprint:'' @ generateClientFingerprint req @ '':'' @ ?minute"
  let ?kgl = "''security:rate_limit:global:'' @ ?minute"
  let ?next = "\<lambda>k. numberToString (map_option (\<lambda>count. count + 1) (readCount store k))"
  have res: "checkRateLimit now req store
      = (\<lparr> rl_allowed = True,
           rl_remaining = map_option (\<lambda>fingerprintCount. 15 - fingerprintCount - 1)
                            (readCount store ?kfp),
           rl_reason = None \<rparr>,
         store(?kip \<mapsto> ?next ?kip, ?kfp \<mapsto> ?next ?kfp, ?kgl \<mapsto> ?next ?kgl))"
    using none
    by (simp add: checkRateLimit_def checkRateLimit_body_def rateLimitConfig_def Let_def bump_def)
  have after: "readCount (snd (checkRateLimit now req store)) ?kip
        = map_option (\<lambda>count. count + 1) (readCount store ?kip)"
    "readCount (snd (checkRateLimit now req store)) ?kfp
        = map_option (\<lambda>count. count + 1) (readCount store ?kfp)"
    "readCount (snd (checkRateLimit now req store)) ?kgl
        = map_option (\<lambda>count. count + 1) (readCount store ?kgl)"
    unfolding res snd_conv
    by (simp_all add: readCount_upd)
  from res show "rl_allowed (fst (checkRateLimit now req store))" by simp
  from after show "\<forall>check\<in>set (rateLimitConfig now req).
       readCount (snd (checkRateLimit now req store)) (''security:'' @ rc_key check)
         = map_option (\<lambda>count. count + 1) (readCount store (''security:'' @ rc_key check))"
    by (simp add: rateLimitConfig_def Let_def)
  from res show "rl_remaining (fst (checkRateLimit now req store))
       = map_option (\<lambda>fingerprintCount. 15 - fingerprintCount - 1) (readCount store ?kfp)"
    by simp
qed

theorem rate_limit_decision_witness:
  "rl_allowed (fst (checkRateLimit 1700000100000 request0 store_ip_20)) = False
   \<and> rl_remaining (fst (checkRateLimit 1700000100000 request0 store_ip_20)) = Some 0
   \<and> snd (checkRateLimit 1700000100000 request0 store_ip_20) = store_ip_20
   \<and> rl_allowed (fst (checkRateLimit 1700000100000 request0 Map.empty))
   \<and> rl_remaining (fst (checkRateLimit 1700000100000 request0 Map.empty)) = Some 14
   \<and> readCount (snd (checkRateLimit 1700000100000 request0 Map.empty))
        (''security:rate_limit:fingerprint:'' @ generateClientFingerprint request0
           @ '':'' @ numberToString (Some (1700000100000 div 60000))) = Some 1"
proof -
  let ?fp = "\<lparr> rc_key = ''rate_limit:fingerprint:'' @ generateClientFingerprint request0
      @ '':'' @ numberToString (Some (1700000100000 div 60000)), rc_limit = 15,
      rc_type = ScopeFingerprint \<rparr>"
  have over: "\<exists>check\<in>set (rateLimitConfig 1700000100000 request0). overLimit store_ip_20 check"
    by (simp add: rateLimitConfig_def Let_def minute_28333335 overLimit_def readCount_def
        store_ip_20_def request0_def parseInt_def isSpace_def digitVal_def)
  have under: "\<forall>check\<in>set (rateLimitConfig 1700000100000 request0). \<not> overLimit Map.empty check"
    by (simp add: rateLimitConfig_def Let_def overLimit_def readCount_def)
  have zero: "readCount Map.empty (''security:'' @ rc_key ?fp) = Some 0"
    by (simp add: readCount_def)
  have member: "?fp \<in> set (rateLimitConfig 1700000100000 request0)"
    by (simp add: rateLimitConfig_def Let_def)
  from rate_limit_decision [of 1700000100000 request0 store_ip_20] over
  have 1: "rl_allowed (fst (checkRateLimit 1700000100000 request0 store_ip_20)) = False
      \<and> rl_remaining (fst (checkRateLimit 1700000100000 request0 store_ip_20)) = Some 0
      \<and> snd (checkRateLimit 1700000100000 request0 store_ip_20) = store_ip_20"
    by blast
  from rate_limit_decision [of 1700000100000 request0 Map.empty] under
  have 2: "rl_allowed (fst (checkRateLimit 1700000100000 request0 Map.empty))
      \<and> (\<forall>check\<in>set (rateLimitConfig 1700000100000 request0).
             readCount (snd (checkRateLimit 1700000100000 request0 Map.empty))
               (''security:'' @ rc_key check)
               = map_option (\<lambda>count. count + 1)
                   (readCount Map.empty (''security:'' @ rc_key check)))
      \<and> rl_remaining (fst (checkRateLimit 1700000100000 request0 Map.empty))
           = map_option (\<lambda>fingerprintCount. 15 - fingerprintCount - 1)
               (readCount Map.empty (''security:rate_limit:fingerprint:''
                  @ generateClientFingerprint request0
                  @ '':'' @ numberToString (Some (1700000100000 div 60000))))"
    by blast
  from 2 member
  have 3: "readCount (snd (checkRateLimit 1700000100000 request0 Map.empty))
      (''security:'' @ rc_key ?fp)
      = map_option (\<lambda>count. count + 1) (readCount Map.empty (''security:'' @ rc_key ?fp))"
    by blast
  from 1 2 3 zero show ?thesis by (simp add: readCount_def)
qed

text \<open>
  Claim C5, as stated, fails where it says a security event is recorded. With the IP
  counter at its ceiling of 20, the call of \<open>logSecurityEvent\<close> throws, the refusal that
  would follow it is never built, and the caller receives the error fallback; the store
  is unchanged, so nothing has been recorded.
\<close>

theorem rate_limit_logs_nothing:
  "checkRateLimit_body 1700000100000 request0 store_ip_20
     = Inl (ReferenceError ''logSecurityEvent'')
   \<and> checkRateLimit 1700000100000 request0 store_ip_20
     = (\<lparr> rl_allowed = False, rl_remaining = Some 0, rl_reason = Some SystemBusy \<rparr>, store_ip_20)"
  by (simp add: checkRateLimit_def checkRateLimit_body_def rateLimitConfig_def Let_def
      minute_28333335 overLimit_def readCount_def store_ip_20_def request0_def parseInt_def
      isSpace_def digitVal_def logSecurityEvent_def)


end
